theory Spec2Isabelle
  imports Complex_Main
begin

section \<open>Python values and the job dictionary\<close>

text \<open>
  The handler of \<^verbatim>\<open>src/handler.py\<close> reads its parameters from the dictionary
  \<^verbatim>\<open>job["input"]\<close> with \<^verbatim>\<open>dict.get\<close>. The values are JSON values; the code applies to
  them truthiness (\<^verbatim>\<open>not v\<close>, \<^verbatim>\<open>if v:\<close>), \<^verbatim>\<open>str(v)\<close> and operations that need a string.
  \<open>POther\<close> stands for every value that is none of the first four (a float, a list, a
  dictionary): it carries its truth value and its \<^verbatim>\<open>str\<close> rendering, and is not a string.
\<close>

datatype pyval = PNone | PBool bool | PInt int | PStr string | POther bool string

type_synonym pydict = "string \<rightharpoonup> pyval"

record job =
  input :: pydict

definition dict_get :: "pydict \<Rightarrow> string \<Rightarrow> pyval \<Rightarrow> pyval" where
  "dict_get d k dflt = (case d k of None \<Rightarrow> dflt | Some v \<Rightarrow> v)"

fun truthy :: "pyval \<Rightarrow> bool" where
  "truthy PNone = False"
| "truthy (PBool b) = b"
| "truthy (PInt n) = (n \<noteq> 0)"
| "truthy (PStr s) = (s \<noteq> [])"
| "truthy (POther t r) = t"

definition digit_char :: "nat \<Rightarrow> char" where
  "digit_char n = ''0123456789'' ! n"

fun str_nat :: "nat \<Rightarrow> string" where
  "str_nat n = (if n < 10 then [digit_char n] else str_nat (n div 10) @ [digit_char (n mod 10)])"

declare str_nat.simps [simp del]

definition str_int :: "int \<Rightarrow> string" where
  "str_int i = (if i < 0 then CHR ''-'' # str_nat (nat (- i)) else str_nat (nat i))"

fun py_str :: "pyval \<Rightarrow> string" where
  "py_str PNone = ''None''"
| "py_str (PBool b) = (if b then ''True'' else ''False'')"
| "py_str (PInt n) = str_int n"
| "py_str (PStr s) = s"
| "py_str (POther t r) = r"

text \<open>\<^verbatim>\<open>int(x)\<close> on a float truncates towards zero.\<close>

definition py_int :: "real \<Rightarrow> int" where
  "py_int x = (if 0 \<le> x then \<lfloor>x\<rfloor> else \<lceil>x\<rceil>)"

text \<open>\<^verbatim>\<open>s.split(c)\<close> for a separator of one character: never empty, the pieces between
  the occurrences of \<open>c\<close>.\<close>

fun py_split :: "char \<Rightarrow> string \<Rightarrow> string list" where
  "py_split c [] = [[]]"
| "py_split c (x # xs) =
     (if x = c then [] # py_split c xs
      else (x # hd (py_split c xs)) # tl (py_split c xs))"

text \<open>\<^verbatim>\<open>os.path.join(a, b)\<close> on POSIX, for two components.\<close>

definition os_path_join :: "string \<Rightarrow> string \<Rightarrow> string" where
  "os_path_join a b =
     (if b \<noteq> [] \<and> hd b = CHR ''/'' then b
      else if a = [] \<or> last a = CHR ''/'' then a @ b
      else a @ ''/'' @ b)"

section \<open>Exceptions, the outside world and the state\<close>

datatype exn =
    RequestException string
  | RuntimeError string
  | TimeoutExpired "string list" nat
  | TypeError string
  | AttributeError string
  | OSError string
  | Exception string

datatype frame = Frame "nat list"

record video =
  fps :: real
  width :: int
  height :: int
  codec :: string
  frames :: "frame list"

text \<open>What a child process does when it is started: it exits after some seconds with a
  return code and its captured output, it never exits, or it cannot be started.\<close>

datatype proc_behaviour =
    Exits nat int string string
  | Hangs
  | CannotStart exn

record completed_process =
  returncode :: int
  stdout :: string
  stderr :: string

text \<open>An HTTP response body as \<^verbatim>\<open>iter_content\<close> yields it: the chunks, and the exception
  that ends the stream early, if any.\<close>

record response =
  chunks :: "string list"
  broken :: "exn option"

record gfpgan_config =
  model_path :: string
  upscale :: int
  arch :: string
  channel_multiplier :: int
  bg_upsampler :: "string option"

text \<open>
  The collaborators of the handler, which are not part of the repository: the temporary
  directory, \<^verbatim>\<open>pathlib\<close>, the HTTP transport, the two executables, OpenCV's decoder,
  the GFPGAN library, the file system and the clock. Each is a function that says what the
  collaborator answers; an exception it raises is an \<open>Inl\<close> (or a \<open>Some\<close>).
  \<open>writer_format\<close> is what OpenCV's encoder for a codec makes of the frame rate and the
  frame size it is asked for: the rate and size of the video it writes.
  \<open>elapsed\<close> is the value of \<^verbatim>\<open>round(time.time() - start, 1)\<close>; clock arithmetic is
  not modelled.
\<close>

record env =
  mkdtemp :: "exn + string"
  path_suffix :: "string \<Rightarrow> string"
  http_get :: "string \<Rightarrow> exn + response"
  exec :: "string list \<Rightarrow> proc_behaviour"
  gfpganer :: "gfpgan_config \<Rightarrow> exn + (frame \<Rightarrow> exn + frame)"
  probe :: "string \<Rightarrow> video option"
  writer_format :: "string \<Rightarrow> real \<Rightarrow> int \<times> int \<Rightarrow> real \<times> int \<times> int"
  open_rb :: "string \<Rightarrow> exn option"
  http_put :: "pyval \<Rightarrow> string \<Rightarrow> exn option"
  getsize :: "string \<Rightarrow> exn + nat"
  elapsed :: real

datatype event =
    Mkdtemp string
  | Rmtree string
  | HttpGet string nat
  | FileWrite string
  | Exec "string list" nat
  | GfpganInit gfpgan_config
  | CapOpen string
  | WriterOpen string
  | Enhance frame
  | FrameWrite string
  | CapRelease string
  | WriterRelease string
  | FileRead string
  | HttpPut pyval string nat
  | Getsize string

text \<open>
  The state the handler changes: the operations it has invoked on its collaborators, in
  order; the temporary directories that exist (a file under one exists only as long as the
  directory does); the decoders and encoders opened and not yet released; and the videos
  written through \<^verbatim>\<open>cv2.VideoWriter\<close>, by path.
\<close>

record world =
  trace :: "event list"
  live_dirs :: "string list"
  open_caps :: "string list"
  open_outs :: "string list"
  encoded :: "string \<rightharpoonup> video"

type_synonym 'a run = "world \<Rightarrow> (exn + 'a) \<times> world"

definition emit :: "event \<Rightarrow> world \<Rightarrow> world" where
  "emit ev w = w\<lparr>trace := trace w @ [ev]\<rparr>"

definition py_return :: "'a \<Rightarrow> 'a run" where
  "py_return x w = (Inr x, w)"

definition py_raise :: "exn \<Rightarrow> 'a run" where
  "py_raise e w = (Inl e, w)"

text \<open>Sequencing of two statements: an exception of the first skips the second.\<close>

definition then_do :: "'a run \<Rightarrow> ('a \<Rightarrow> 'b run) \<Rightarrow> 'b run" where
  "then_do m f w = (case m w of (Inl e, w') \<Rightarrow> (Inl e, w') | (Inr x, w') \<Rightarrow> f x w')"

text \<open>\<^verbatim>\<open>subprocess.run(cmd, capture_output=True, text=True, timeout=t)\<close>: the process is
  started and waited for; past \<open>t\<close> seconds it is killed and \<^verbatim>\<open>TimeoutExpired\<close> is raised.\<close>

definition subprocess_run :: "env \<Rightarrow> string list \<Rightarrow> nat \<Rightarrow> completed_process run" where
  "subprocess_run env cmd timeout w =
     (case exec env cmd of
        CannotStart e \<Rightarrow> (Inl e, emit (Exec cmd timeout) w)
      | Hangs \<Rightarrow> (Inl (TimeoutExpired cmd timeout), emit (Exec cmd timeout) w)
      | Exits secs rc out err \<Rightarrow>
          if timeout < secs then (Inl (TimeoutExpired cmd timeout), emit (Exec cmd timeout) w)
          else (Inr \<lparr>returncode = rc, stdout = out, stderr = err\<rparr>, emit (Exec cmd timeout) w))"

section \<open>The stages\<close>

definition REALESRGAN_MODEL :: string where
  "REALESRGAN_MODEL = ''realesr-general-x4v3''"

subsection \<open>\<^verbatim>\<open>download_file\<close>\<close>

definition download_file :: "env \<Rightarrow> string \<Rightarrow> string \<Rightarrow> string run" where
  "download_file env url dest w =
     (case http_get env url of
        Inl e \<Rightarrow> (Inl e, emit (HttpGet url 300) w)
      | Inr resp \<Rightarrow>
          (case broken resp of
             Some e \<Rightarrow> (Inl e, emit (FileWrite dest) (emit (HttpGet url 300) w))
           | None \<Rightarrow> (Inr dest, emit (FileWrite dest) (emit (HttpGet url 300) w))))"

subsection \<open>\<^verbatim>\<open>restore_faces_video\<close>\<close>

definition GFPGAN_CONFIG :: gfpgan_config where
  "GFPGAN_CONFIG = \<lparr>model_path = ''/models/GFPGANv1.4.pth'', upscale = 1, arch = ''clean'',
     channel_multiplier = 2, bg_upsampler = None\<rparr>"

text \<open>A \<^verbatim>\<open>cv2.VideoCapture\<close> object: whether the file could be opened, the properties as
  \<^verbatim>\<open>get\<close> returns them (as floats, 0 when not opened) and the frames not yet read.\<close>

record capture =
  cap_opened :: bool
  cap_fps :: real
  cap_width :: real
  cap_height :: real
  cap_remaining :: "frame list"

datatype cap_prop = CAP_PROP_FPS | CAP_PROP_FRAME_WIDTH | CAP_PROP_FRAME_HEIGHT

definition VideoCapture :: "env \<Rightarrow> string \<Rightarrow> capture" where
  "VideoCapture env path =
     (case probe env path of
        None \<Rightarrow> \<lparr>cap_opened = False, cap_fps = 0, cap_width = 0, cap_height = 0,
                  cap_remaining = []\<rparr>
      | Some v \<Rightarrow> \<lparr>cap_opened = True, cap_fps = fps v, cap_width = of_int (width v),
                  cap_height = of_int (height v), cap_remaining = frames v\<rparr>)"

fun cap_get :: "capture \<Rightarrow> cap_prop \<Rightarrow> real" where
  "cap_get cap CAP_PROP_FPS = cap_fps cap"
| "cap_get cap CAP_PROP_FRAME_WIDTH = cap_width cap"
| "cap_get cap CAP_PROP_FRAME_HEIGHT = cap_height cap"

text \<open>\<^verbatim>\<open>cap.read()\<close>: the next frame (\<^verbatim>\<open>ret\<close> is true) or none at the end of the stream.\<close>

definition cap_read :: "capture \<Rightarrow> frame option \<times> capture" where
  "cap_read cap =
     (case cap_remaining cap of
        [] \<Rightarrow> (None, cap)
      | f # fs \<Rightarrow> (Some f, cap\<lparr>cap_remaining := fs\<rparr>))"

text \<open>\<^verbatim>\<open>cv2.VideoWriter(path, fourcc, fps, (w, h))\<close>: the file is created with the frame
  rate and size that the encoder makes of the requested ones.\<close>

definition VideoWriter ::
  "env \<Rightarrow> string \<Rightarrow> string \<Rightarrow> real \<Rightarrow> int \<times> int \<Rightarrow> world \<Rightarrow> world" where
  "VideoWriter env path fourcc rate dims w =
     (emit (WriterOpen path) w)
       \<lparr>open_outs := path # open_outs w,
        encoded := (encoded w)(path \<mapsto>
          \<lparr>fps = fst (writer_format env fourcc rate dims),
           width = fst (snd (writer_format env fourcc rate dims)),
           height = snd (snd (writer_format env fourcc rate dims)),
           codec = fourcc, frames = []\<rparr>)\<rparr>"

definition writer_write :: "string \<Rightarrow> frame \<Rightarrow> world \<Rightarrow> world" where
  "writer_write path f w =
     (emit (FrameWrite path) w)
       \<lparr>encoded := (case encoded w path of
                     None \<Rightarrow> encoded w
                   | Some v \<Rightarrow> (encoded w)(path \<mapsto> v\<lparr>frames := frames v @ [f]\<rparr>))\<rparr>"

definition cap_release :: "string \<Rightarrow> world \<Rightarrow> world" where
  "cap_release path w = (emit (CapRelease path) w)\<lparr>open_caps := remove1 path (open_caps w)\<rparr>"

definition writer_release :: "string \<Rightarrow> world \<Rightarrow> world" where
  "writer_release path w =
     (emit (WriterRelease path) w)\<lparr>open_outs := remove1 path (open_outs w)\<rparr>"

text \<open>The \<^verbatim>\<open>while True\<close> loop of lines 47 to 57; it returns \<^verbatim>\<open>frame_count\<close>.\<close>

function frame_loop ::
  "(frame \<Rightarrow> exn + frame) \<Rightarrow> string \<Rightarrow> capture \<Rightarrow> nat \<Rightarrow> nat run" where
  "frame_loop enhance out cap frame_count w =
     (case cap_read cap of
        (None, cap') \<Rightarrow> (Inr frame_count, w)
      | (Some f, cap') \<Rightarrow>
          (case enhance f of
             Inl e \<Rightarrow> (Inl e, emit (Enhance f) w)
           | Inr restored \<Rightarrow>
               frame_loop enhance out cap' (frame_count + 1)
                 (writer_write out restored (emit (Enhance f) w))))"
  by pat_completeness auto
termination
  by (relation "measure (\<lambda>(enhance, out, cap, frame_count, w). length (cap_remaining cap))")
     (auto simp: cap_read_def split: list.splits)

declare frame_loop.simps [simp del]

definition restore_faces_video :: "env \<Rightarrow> string \<Rightarrow> string \<Rightarrow> string run" where
  "restore_faces_video env input_path output_path w =
     (case gfpganer env GFPGAN_CONFIG of
        Inl e \<Rightarrow> (Inl e, emit (GfpganInit GFPGAN_CONFIG) w)
      | Inr enhance \<Rightarrow>
          (let w1 = (emit (CapOpen input_path) (emit (GfpganInit GFPGAN_CONFIG) w))
                      \<lparr>open_caps := input_path # open_caps w\<rparr>;
               cap = VideoCapture env input_path;
               rate = cap_get cap CAP_PROP_FPS;
               wd = py_int (cap_get cap CAP_PROP_FRAME_WIDTH);
               ht = py_int (cap_get cap CAP_PROP_FRAME_HEIGHT);
               fourcc = ''mp4v'';
               w2 = VideoWriter env output_path fourcc rate (wd, ht) w1
           in case frame_loop enhance output_path cap 0 w2 of
                (Inl e, w3) \<Rightarrow> (Inl e, w3)
              | (Inr frame_count, w3) \<Rightarrow>
                  (Inr output_path, writer_release output_path (cap_release input_path w3))))"

subsection \<open>\<^verbatim>\<open>enhance_audio\<close>\<close>

definition audio_cmd :: "string \<Rightarrow> string \<Rightarrow> string list" where
  "audio_cmd input_path output_path =
     [''ffmpeg'', ''-y'', ''-i'', input_path,
      ''-af'', ''highpass=f=80,lowpass=f=12000,afftdn=nf=-20,loudnorm=I=-16:TP=-1.5:LRA=11'',
      ''-c:v'', ''copy'',
      output_path]"

definition enhance_audio :: "env \<Rightarrow> string \<Rightarrow> string \<Rightarrow> string run" where
  "enhance_audio env input_path output_path =
     then_do (subprocess_run env (audio_cmd input_path output_path) 3600) (\<lambda>result.
       if returncode result \<noteq> 0 then py_return input_path
       else py_return output_path)"

subsection \<open>\<^verbatim>\<open>run_realesrgan\<close>\<close>

definition realesrgan_cmd :: "string \<Rightarrow> string \<Rightarrow> string \<Rightarrow> pyval \<Rightarrow> string list" where
  "realesrgan_cmd input_path output_path model scale_arg =
     [''realesrgan-ncnn-vulkan'',
      ''-i'', input_path,
      ''-o'', output_path,
      ''-n'', model,
      ''-s'', py_str scale_arg,
      ''-f'', ''mp4'']"

text \<open>The command list holds \<^verbatim>\<open>model\<close> as it is; \<^verbatim>\<open>' '.join(cmd)\<close> on line 90 raises
  \<^verbatim>\<open>TypeError\<close> when it is not a string, before the process is started.\<close>

definition run_realesrgan :: "env \<Rightarrow> string \<Rightarrow> string \<Rightarrow> pyval \<Rightarrow> pyval \<Rightarrow> string run" where
  "run_realesrgan env input_path output_path scale_arg model =
     (case model of
        PStr m \<Rightarrow>
          then_do (subprocess_run env (realesrgan_cmd input_path output_path m scale_arg) 7200)
            (\<lambda>result.
               if returncode result \<noteq> 0
               then py_raise (RuntimeError (''Real-ESRGAN failed: '' @ stderr result))
               else py_return output_path)
      | _ \<Rightarrow> py_raise (TypeError ''sequence item 6: expected str instance''))"

subsection \<open>\<^verbatim>\<open>upload_result\<close>\<close>

definition upload_result :: "env \<Rightarrow> string \<Rightarrow> pyval \<Rightarrow> string run" where
  "upload_result env file_path upload_url w =
     (if truthy upload_url then
        (case open_rb env file_path of
           Some e \<Rightarrow> (Inl e, emit (FileRead file_path) w)
         | None \<Rightarrow>
             (case http_put env upload_url file_path of
                Some e \<Rightarrow>
                  (Inl e, emit (HttpPut upload_url file_path 600) (emit (FileRead file_path) w))
              | None \<Rightarrow>
                  (case upload_url of
                     PStr u \<Rightarrow> Inr (py_split CHR ''?'' u ! 0)
                   | _ \<Rightarrow> Inl (AttributeError ''object has no attribute split''),
                   emit (HttpPut upload_url file_path 600) (emit (FileRead file_path) w))))
      else
        (case getsize env file_path of
           Inl e \<Rightarrow> (Inl e, emit (Getsize file_path) w)
         | Inr nbytes \<Rightarrow>
             (Inr (''file://'' @ file_path @ '' ('' @ str_nat nbytes @ '' bytes)''),
              emit (Getsize file_path) w)))"

section \<open>The handler\<close>

record enhanced =
  video_url :: string
  duration_secs :: real
  scale :: pyval
  face_restore :: pyval
  audio_enhance :: pyval

text \<open>The dictionary the handler returns: \<^verbatim>\<open>{"error": ...}\<close> or the five result fields.\<close>

datatype job_result = Error string | Done enhanced

text \<open>\<^verbatim>\<open>with tempfile.TemporaryDirectory() as tmpdir\<close>: the directory is created, the body
  runs, and the directory is removed with all it holds, whether the body returned or
  raised.\<close>

definition enter_tmpdir :: "string \<Rightarrow> world \<Rightarrow> world" where
  "enter_tmpdir d w = (emit (Mkdtemp d) w)\<lparr>live_dirs := d # live_dirs w\<rparr>"

definition cleanup_tmpdir :: "string \<Rightarrow> world \<Rightarrow> world" where
  "cleanup_tmpdir d w = (emit (Rmtree d) w)\<lparr>live_dirs := removeAll d (live_dirs w)\<rparr>"

definition with_TemporaryDirectory :: "env \<Rightarrow> (string \<Rightarrow> 'a run) \<Rightarrow> 'a run" where
  "with_TemporaryDirectory env body w =
     (case mkdtemp env of
        Inl e \<Rightarrow> (Inl e, w)
      | Inr d \<Rightarrow> (case body d (enter_tmpdir d w) of (r, w') \<Rightarrow> (r, cleanup_tmpdir d w')))"

definition input_path_of :: "env \<Rightarrow> string \<Rightarrow> string \<Rightarrow> string" where
  "input_path_of env tmpdir url =
     (let input_ext = (if path_suffix env url \<noteq> [] then path_suffix env url else ''.mp4'')
      in os_path_join tmpdir (''input'' @ input_ext))"

definition upscaled_path_of :: "string \<Rightarrow> string" where
  "upscaled_path_of tmpdir = os_path_join tmpdir ''upscaled.mp4''"

definition restored_path_of :: "string \<Rightarrow> string" where
  "restored_path_of tmpdir = os_path_join tmpdir ''restored.mp4''"

definition audio_path_of :: "string \<Rightarrow> string" where
  "audio_path_of tmpdir = os_path_join tmpdir ''audio_enhanced.mp4''"

text \<open>Lines 146 to 149: the new value of \<^verbatim>\<open>current\<close>.\<close>

definition face_restore_step :: "env \<Rightarrow> string \<Rightarrow> pyval \<Rightarrow> string \<Rightarrow> string run" where
  "face_restore_step env tmpdir face current =
     (if truthy face then
        then_do (restore_faces_video env current (restored_path_of tmpdir))
          (\<lambda>_. py_return (restored_path_of tmpdir))
      else py_return current)"

text \<open>Lines 152 to 154: the new value of \<^verbatim>\<open>current\<close>.\<close>

definition audio_enhance_step :: "env \<Rightarrow> string \<Rightarrow> pyval \<Rightarrow> string \<Rightarrow> string run" where
  "audio_enhance_step env tmpdir audio current =
     (if truthy audio then enhance_audio env current (audio_path_of tmpdir)
      else py_return current)"

text \<open>The body of the \<^verbatim>\<open>with\<close> block, lines 135 to 164. \<^verbatim>\<open>Path(video_url)\<close> raises
  \<^verbatim>\<open>TypeError\<close> for a value that is not a string.\<close>

definition pipeline ::
  "env \<Rightarrow> pyval \<Rightarrow> pyval \<Rightarrow> pyval \<Rightarrow> pyval \<Rightarrow> pyval \<Rightarrow> pyval \<Rightarrow> string \<Rightarrow> job_result run" where
  "pipeline env url scl model face audio upload_url tmpdir =
     (case url of
        PStr u \<Rightarrow>
          then_do (download_file env u (input_path_of env tmpdir u)) (\<lambda>_.
          then_do (run_realesrgan env (input_path_of env tmpdir u) (upscaled_path_of tmpdir)
                     scl model) (\<lambda>_.
          then_do (face_restore_step env tmpdir face (upscaled_path_of tmpdir)) (\<lambda>current.
          then_do (audio_enhance_step env tmpdir audio current) (\<lambda>current.
          then_do (upload_result env current upload_url) (\<lambda>result_url.
          py_return (Done \<lparr>video_url = result_url, duration_secs = elapsed env,
            scale = scl, face_restore = face, audio_enhance = audio\<rparr>))))))
      | _ \<Rightarrow> py_raise (TypeError ''expected str, bytes or os.PathLike object''))"

definition handler :: "env \<Rightarrow> job \<Rightarrow> job_result run" where
  "handler env job =
     (let job_input = input job;
          url = dict_get job_input ''video_url'' PNone;
          scl = dict_get job_input ''scale'' (PInt 4);
          model = dict_get job_input ''model'' (PStr REALESRGAN_MODEL);
          face = dict_get job_input ''face_restore'' (PBool True);
          audio = dict_get job_input ''audio_enhance'' (PBool True);
          upload_url = dict_get job_input ''upload_url'' (PStr '''')
      in if \<not> truthy url then py_return (Error ''video_url required'')
         else with_TemporaryDirectory env (pipeline env url scl model face audio upload_url))"

section \<open>Stages and the operations that belong to them\<close>

datatype stage = Fetch | Upscale | FaceRestore | AudioEnhance | Publish

text \<open>The stage an operation belongs to; creating and removing the workspace belongs to
  none. A child process belongs to the stage of its executable.\<close>

fun event_stage :: "event \<Rightarrow> stage option" where
  "event_stage (Mkdtemp d) = None"
| "event_stage (Rmtree d) = None"
| "event_stage (HttpGet url t) = Some Fetch"
| "event_stage (FileWrite p) = Some Fetch"
| "event_stage (Exec cmd t) =
     (if cmd \<noteq> [] \<and> hd cmd = ''realesrgan-ncnn-vulkan'' then Some Upscale
      else if cmd \<noteq> [] \<and> hd cmd = ''ffmpeg'' then Some AudioEnhance
      else None)"
| "event_stage (GfpganInit c) = Some FaceRestore"
| "event_stage (CapOpen p) = Some FaceRestore"
| "event_stage (WriterOpen p) = Some FaceRestore"
| "event_stage (Enhance f) = Some FaceRestore"
| "event_stage (FrameWrite p) = Some FaceRestore"
| "event_stage (CapRelease p) = Some FaceRestore"
| "event_stage (WriterRelease p) = Some FaceRestore"
| "event_stage (FileRead p) = Some Publish"
| "event_stage (HttpPut url p t) = Some Publish"
| "event_stage (Getsize p) = Some Publish"

definition stage_events :: "stage \<Rightarrow> world \<Rightarrow> event list" where
  "stage_events s w = filter (\<lambda>ev. event_stage ev = Some s) (trace w)"

text \<open>The operations invoked between two states of one run.\<close>

definition new_events :: "world \<Rightarrow> world \<Rightarrow> event list" where
  "new_events w w' = drop (length (trace w)) (trace w')"

section \<open>Scenarios\<close>

definition world0 :: world where
  "world0 = \<lparr>trace = [], live_dirs = [], open_caps = [], open_outs = [], encoded = Map.empty\<rparr>"

definition clip :: video where
  "clip = \<lparr>fps = 30, width = 1920, height = 1080, codec = ''h264'',
     frames = [Frame [1, 2], Frame [3, 4]]\<rparr>"

text \<open>A restorer that brightens every pixel, and one that fails on the frame \<open>Frame [3, 4]\<close>.\<close>

definition brighten :: "frame \<Rightarrow> exn + frame" where
  "brighten f = (case f of Frame px \<Rightarrow> Inr (Frame (map Suc px)))"

definition brighten_until_34 :: "frame \<Rightarrow> exn + frame" where
  "brighten_until_34 f =
     (if f = Frame [3, 4] then Inl (Exception ''CUDA out of memory'') else brighten f)"

text \<open>Every collaborator answers well; the encoder keeps the rate and size it is asked for.\<close>

definition env_ok :: env where
  "env_ok = \<lparr>mkdtemp = Inr ''/tmp/job'',
     path_suffix = (\<lambda>p. ''.mp4''),
     http_get = (\<lambda>url. Inr \<lparr>chunks = [''data''], broken = None\<rparr>),
     exec = (\<lambda>cmd. Exits 10 0 [] []),
     gfpganer = (\<lambda>c. Inr brighten),
     probe = (\<lambda>p. Some clip),
     writer_format = (\<lambda>fourcc rate dims. (rate, dims)),
     open_rb = (\<lambda>p. None),
     http_put = (\<lambda>url p. None),
     getsize = (\<lambda>p. Inr 2048),
     elapsed = 12.5\<rparr>"

definition env_upscale_fails :: env where
  "env_upscale_fails = env_ok\<lparr>exec :=
     (\<lambda>cmd. if hd cmd = ''realesrgan-ncnn-vulkan'' then Exits 3 1 [] ''invalid gpu device''
            else Exits 10 0 [] [])\<rparr>"

definition env_audio_fails :: env where
  "env_audio_fails = env_ok\<lparr>exec :=
     (\<lambda>cmd. if hd cmd = ''ffmpeg'' then Exits 2 1 [] ''no audio stream''
            else Exits 10 0 [] [])\<rparr>"

definition env_audio_slow :: env where
  "env_audio_slow = env_ok\<lparr>exec :=
     (\<lambda>cmd. if hd cmd = ''ffmpeg'' then Exits 4000 0 [] [] else Exits 10 0 [] [])\<rparr>"

text \<open>A clip of odd width and height, and an encoder that cuts an odd width or height
  down to the even number below it.\<close>

definition clip_odd :: video where
  "clip_odd = clip\<lparr>width := 63, height := 47\<rparr>"

definition env_even_sizes :: env where
  "env_even_sizes = env_ok\<lparr>probe := (\<lambda>p. Some clip_odd),
     writer_format := (\<lambda>fourcc rate dims.
       (rate, (fst dims - fst dims mod 2, snd dims - snd dims mod 2)))\<rparr>"

definition env_inference_fails :: env where
  "env_inference_fails = env_ok\<lparr>gfpganer := (\<lambda>c. Inr brighten_until_34)\<rparr>"

definition job_default :: job where
  "job_default = \<lparr>input = [''video_url'' \<mapsto> PStr ''https://x/test.mp4'']\<rparr>"

definition job_scale3 :: job where
  "job_scale3 = \<lparr>input = [''video_url'' \<mapsto> PStr ''https://x/test.mp4'',
     ''scale'' \<mapsto> PInt 3,
     ''face_restore'' \<mapsto> PBool False, ''audio_enhance'' \<mapsto> PBool False]\<rparr>"

definition job_no_url :: job where
  "job_no_url = \<lparr>input = [''scale'' \<mapsto> PInt 2]\<rparr>"

section \<open>Auxiliary notions for the proofs\<close>

text \<open>\<open>stage_footprint s w w'\<close>: from \<open>w\<close> to \<open>w'\<close> only operations of stage \<open>s\<close> were
  invoked and no directory was created or removed. \<open>staged\<close> is the same for operations
  of any stage.\<close>

definition stage_footprint :: "stage \<Rightarrow> world \<Rightarrow> world \<Rightarrow> bool" where
  "stage_footprint s w w' \<longleftrightarrow>
     (\<exists>es. trace w' = trace w @ es \<and> list_all (\<lambda>ev. event_stage ev = Some s) es)
     \<and> live_dirs w' = live_dirs w"

definition staged :: "world \<Rightarrow> world \<Rightarrow> bool" where
  "staged w w' \<longleftrightarrow>
     (\<exists>es. trace w' = trace w @ es \<and> list_all (\<lambda>ev. event_stage ev \<noteq> None) es)
     \<and> live_dirs w' = live_dirs w"

text \<open>The rate and size of the video that the encoder writes when it is opened, as on
  lines 39 to 44, with the rate and size read from the decoder of \<open>ip\<close>.\<close>

definition video_format :: "env \<Rightarrow> string \<Rightarrow> real \<times> int \<times> int" where
  "video_format env ip =
     writer_format env ''mp4v'' (cap_fps (VideoCapture env ip))
       (py_int (cap_width (VideoCapture env ip)), py_int (cap_height (VideoCapture env ip)))"

text \<open>The frames the loop has written when it stops: the restored images of the frames up
  to the first one on which the inference call raises.\<close>

fun restored_prefix :: "(frame \<Rightarrow> exn + frame) \<Rightarrow> frame list \<Rightarrow> frame list" where
  "restored_prefix enhance [] = []"
| "restored_prefix enhance (f # fs) =
     (case enhance f of Inl e \<Rightarrow> [] | Inr r \<Rightarrow> r # restored_prefix enhance fs)"

section \<open>Basic facts\<close>

lemma emit_simps [simp]:
  "trace (emit ev w) = trace w @ [ev]"
  "live_dirs (emit ev w) = live_dirs w"
  "open_caps (emit ev w) = open_caps w"
  "open_outs (emit ev w) = open_outs w"
  "encoded (emit ev w) = encoded w"
  by (simp_all add: emit_def)

lemma pair_fstI: "fst p = a \<Longrightarrow> p = (a, snd p)"
  by (cases p) simp

lemma then_do_Inr: "m w = (Inr x, w') \<Longrightarrow> then_do m f w = f x w'"
  by (simp add: then_do_def)

lemma footprint_refl: "stage_footprint s w w"
  by (simp add: stage_footprint_def)

lemma footprint_trans:
  "stage_footprint s w w1 \<Longrightarrow> stage_footprint s w1 w2 \<Longrightarrow> stage_footprint s w w2"
  by (auto simp: stage_footprint_def)

lemma footprint_emit: "event_stage ev = Some s \<Longrightarrow> stage_footprint s w (emit ev w)"
  by (simp add: stage_footprint_def)

lemma footprint_emit_after:
  "stage_footprint s w w1 \<Longrightarrow> event_stage ev = Some s \<Longrightarrow> stage_footprint s w (emit ev w1)"
  by (auto simp: stage_footprint_def)

lemma footprint_staged: "stage_footprint s w w' \<Longrightarrow> staged w w'"
  by (auto simp: stage_footprint_def staged_def list_all_iff)

lemma staged_refl: "staged w w"
  by (simp add: staged_def)

lemma staged_trans: "staged w w1 \<Longrightarrow> staged w1 w2 \<Longrightarrow> staged w w2"
  by (auto simp: staged_def)

lemma footprint_other_stage:
  "stage_footprint s w w' \<Longrightarrow> s' \<noteq> s \<Longrightarrow> stage_events s' w' = stage_events s' w"
  by (auto simp: stage_footprint_def stage_events_def list_all_iff filter_empty_conv)

subsection \<open>Each stage invokes operations of its own stage only\<close>

lemma subprocess_run_world:
  "snd (subprocess_run env cmd t w) = emit (Exec cmd t) w"
  by (simp add: subprocess_run_def split: proc_behaviour.splits)

lemma download_file_footprint:
  "stage_footprint Fetch w (snd (download_file env url dest w))"
  by (auto simp: download_file_def split: sum.splits option.splits
      intro!: footprint_emit_after footprint_emit)

lemma run_realesrgan_footprint:
  "stage_footprint Upscale w (snd (run_realesrgan env ip op scl model w))"
proof (cases model)
  case (PStr m)
  have "snd (run_realesrgan env ip op scl model w) = emit (Exec (realesrgan_cmd ip op m scl) 7200) w"
    using subprocess_run_world [of env "realesrgan_cmd ip op m scl" 7200 w]
    by (auto simp: PStr run_realesrgan_def then_do_def py_raise_def py_return_def
        split: prod.splits sum.splits)
  then show ?thesis
    by (simp add: footprint_emit realesrgan_cmd_def)
qed (simp_all add: run_realesrgan_def py_raise_def footprint_refl)

lemma enhance_audio_footprint:
  "stage_footprint AudioEnhance w (snd (enhance_audio env ip op w))"
proof -
  have "snd (enhance_audio env ip op w) = emit (Exec (audio_cmd ip op) 3600) w"
    using subprocess_run_world [of env "audio_cmd ip op" 3600 w]
    by (auto simp: enhance_audio_def then_do_def py_return_def split: prod.splits sum.splits)
  then show ?thesis
    by (simp add: footprint_emit audio_cmd_def)
qed

lemma audio_enhance_step_footprint:
  "stage_footprint AudioEnhance w (snd (audio_enhance_step env d audio current w))"
  by (simp add: audio_enhance_step_def enhance_audio_footprint py_return_def footprint_refl)

lemma upload_result_footprint:
  "stage_footprint Publish w (snd (upload_result env p url w))"
  by (auto simp: upload_result_def split: sum.splits option.splits
      intro!: footprint_emit_after footprint_emit)

lemma writer_write_footprint: "stage_footprint FaceRestore w (writer_write out f w)"
  by (simp add: writer_write_def stage_footprint_def)

lemma frame_loop_footprint:
  "stage_footprint FaceRestore w (snd (frame_loop enhance out cap n w))"
proof (induction enhance out cap n w rule: frame_loop.induct)
  case (1 enhance out cap frame_count w)
  show ?case
  proof (cases "cap_read cap")
    case (Pair r cap')
    show ?thesis
    proof (cases r)
      case None
      then show ?thesis using Pair
        by (subst frame_loop.simps) (simp add: footprint_refl)
    next
      case (Some f)
      show ?thesis
      proof (cases "enhance f")
        case (Inl e)
        then show ?thesis using Pair Some
          by (subst frame_loop.simps) (simp add: footprint_emit)
      next
        case (Inr restored)
        have step: "stage_footprint FaceRestore w (writer_write out restored (emit (Enhance f) w))"
          by (rule footprint_trans [OF footprint_emit writer_write_footprint]) simp
        have ih: "stage_footprint FaceRestore (writer_write out restored (emit (Enhance f) w))
                   (snd (frame_loop enhance out cap' (frame_count + 1)
                     (writer_write out restored (emit (Enhance f) w))))"
          using "1.IH" Pair Some Inr by auto
        show ?thesis using Pair Some Inr footprint_trans [OF step ih]
          by (subst frame_loop.simps) simp
      qed
    qed
  qed
qed

lemma restore_faces_video_footprint:
  "stage_footprint FaceRestore w (snd (restore_faces_video env ip op w))"
proof (cases "gfpganer env GFPGAN_CONFIG")
  case (Inl e)
  then show ?thesis by (simp add: restore_faces_video_def footprint_emit)
next
  case (Inr enhance)
  define w1 where "w1 = (emit (CapOpen ip) (emit (GfpganInit GFPGAN_CONFIG) w))\<lparr>open_caps := ip # open_caps w\<rparr>"
  define cap where "cap = VideoCapture env ip"
  define w2 where "w2 = VideoWriter env op ''mp4v'' (cap_get cap CAP_PROP_FPS)
     (py_int (cap_get cap CAP_PROP_FRAME_WIDTH), py_int (cap_get cap CAP_PROP_FRAME_HEIGHT)) w1"
  have a: "stage_footprint FaceRestore w w2"
    by (simp add: w2_def w1_def VideoWriter_def stage_footprint_def)
  have b: "stage_footprint FaceRestore w2 (snd (frame_loop enhance op cap 0 w2))"
    by (rule frame_loop_footprint)
  have c: "\<And>w3. stage_footprint FaceRestore w3 (writer_release op (cap_release ip w3))"
    by (simp add: writer_release_def cap_release_def stage_footprint_def)
  have "snd (restore_faces_video env ip op w) =
      (case frame_loop enhance op cap 0 w2 of (Inl e, w3) \<Rightarrow> w3
        | (Inr k, w3) \<Rightarrow> writer_release op (cap_release ip w3))"
    by (simp add: restore_faces_video_def Inr Let_def w1_def cap_def w2_def split: prod.splits sum.splits)
  then show ?thesis
    using footprint_trans [OF a b] c footprint_trans
    by (auto split: prod.splits sum.splits)
qed

lemma face_restore_step_footprint:
  "stage_footprint FaceRestore w (snd (face_restore_step env d face current w))"
  using restore_faces_video_footprint [of w env current "restored_path_of d"]
  by (auto simp: face_restore_step_def then_do_def py_return_def footprint_refl
      split: prod.splits sum.splits)


subsection \<open>The frame loop\<close>

lemma py_int_of_int: "py_int (of_int n) = n"
  by (simp add: py_int_def)

lemma writer_write_encoded:
  "encoded w out = Some v0 \<Longrightarrow>
   encoded (writer_write out r w) out = Some (v0\<lparr>frames := frames v0 @ [r]\<rparr>)"
  by (simp add: writer_write_def)

lemma frame_loop_encoded:
  "encoded w out = Some v0 \<Longrightarrow>
   encoded (snd (frame_loop enhance out cap n w)) out =
     Some (v0\<lparr>frames := frames v0 @ restored_prefix enhance (cap_remaining cap)\<rparr>)"
proof (induction enhance out cap n w arbitrary: v0 rule: frame_loop.induct)
  case (1 enhance out cap frame_count w)
  show ?case
  proof (cases "cap_remaining cap")
    case Nil
    then show ?thesis using "1.prems"
      by (subst frame_loop.simps) (simp add: cap_read_def)
  next
    case (Cons f fs)
    then have rd: "cap_read cap = (Some f, cap\<lparr>cap_remaining := fs\<rparr>)"
      by (simp add: cap_read_def)
    show ?thesis
    proof (cases "enhance f")
      case (Inl e)
      then show ?thesis using rd Cons "1.prems"
        by (subst frame_loop.simps) simp
    next
      case (Inr r)
      have enc: "encoded (writer_write out r (emit (Enhance f) w)) out =
                   Some (v0\<lparr>frames := frames v0 @ [r]\<rparr>)"
        using "1.prems" by (simp add: writer_write_encoded)
      show ?thesis
        using "1.IH" [OF rd [symmetric] refl Inr enc] rd Cons Inr
        by (subst frame_loop.simps) simp
    qed
  qed
qed

lemma frame_loop_returns:
  "frame_loop enhance out cap n w = (Inr k, w') \<Longrightarrow>
   map enhance (cap_remaining cap) = map Inr (restored_prefix enhance (cap_remaining cap))
   \<and> k = n + length (cap_remaining cap)"
proof (induction enhance out cap n w rule: frame_loop.induct)
  case (1 enhance out cap frame_count w)
  show ?case
  proof (cases "cap_remaining cap")
    case Nil
    then show ?thesis using "1.prems"
      by (subst (asm) frame_loop.simps) (simp add: cap_read_def)
  next
    case (Cons f fs)
    then have rd: "cap_read cap = (Some f, cap\<lparr>cap_remaining := fs\<rparr>)"
      by (simp add: cap_read_def)
    show ?thesis
    proof (cases "enhance f")
      case (Inl e)
      then show ?thesis using rd "1.prems"
        by (subst (asm) frame_loop.simps) simp
    next
      case (Inr r)
      have "frame_loop enhance out (cap\<lparr>cap_remaining := fs\<rparr>) (frame_count + 1)
              (writer_write out r (emit (Enhance f) w)) = (Inr k, w')"
        using "1.prems" rd Inr by (subst (asm) frame_loop.simps) simp
      from "1.IH" [OF rd [symmetric] refl Inr this] show ?thesis
        using Cons Inr by simp
    qed
  qed
qed

lemma writer_write_handles:
  "open_caps (writer_write out r w) = open_caps w"
  "open_outs (writer_write out r w) = open_outs w"
  by (simp_all add: writer_write_def)

lemma frame_loop_handles:
  "open_caps (snd (frame_loop enhance out cap n w)) = open_caps w \<and>
   open_outs (snd (frame_loop enhance out cap n w)) = open_outs w"
proof (induction enhance out cap n w rule: frame_loop.induct)
  case (1 enhance out cap frame_count w)
  show ?case
  proof (cases "cap_remaining cap")
    case Nil
    then show ?thesis
      by (subst (1 2) frame_loop.simps) (simp add: cap_read_def)
  next
    case (Cons f fs)
    then have rd: "cap_read cap = (Some f, cap\<lparr>cap_remaining := fs\<rparr>)"
      by (simp add: cap_read_def)
    show ?thesis
    proof (cases "enhance f")
      case (Inl e)
      then show ?thesis using rd
        by (subst (1 2) frame_loop.simps) simp
    next
      case (Inr r)
      show ?thesis
        using "1.IH" [OF rd [symmetric] refl Inr] rd Inr
        by (subst (1 2) frame_loop.simps) (simp add: writer_write_handles)
    qed
  qed
qed

lemma frame_loop_trace:
  "frame_loop enhance out cap n w = (Inr k, w') \<Longrightarrow>
   trace w' = trace w @ concat (map (\<lambda>f. [Enhance f, FrameWrite out]) (cap_remaining cap))"
proof (induction enhance out cap n w rule: frame_loop.induct)
  case (1 enhance out cap frame_count w)
  show ?case
  proof (cases "cap_remaining cap")
    case Nil
    then show ?thesis using "1.prems"
      by (subst (asm) frame_loop.simps) (simp add: cap_read_def)
  next
    case (Cons f fs)
    then have rd: "cap_read cap = (Some f, cap\<lparr>cap_remaining := fs\<rparr>)"
      by (simp add: cap_read_def)
    show ?thesis
    proof (cases "enhance f")
      case (Inl e)
      then show ?thesis using rd "1.prems"
        by (subst (asm) frame_loop.simps) simp
    next
      case (Inr r)
      have "frame_loop enhance out (cap\<lparr>cap_remaining := fs\<rparr>) (frame_count + 1)
              (writer_write out r (emit (Enhance f) w)) = (Inr k, w')"
        using "1.prems" rd Inr by (subst (asm) frame_loop.simps) simp
      from "1.IH" [OF rd [symmetric] refl Inr this] show ?thesis
        using Cons by (simp add: writer_write_def)
    qed
  qed
qed

section \<open>Face restoration\<close>

lemma restore_faces_video_encoded:
  assumes "gfpganer env GFPGAN_CONFIG = Inr enhance"
  shows "encoded (snd (restore_faces_video env ip op w)) op =
     Some \<lparr>fps = fst (video_format env ip),
           width = fst (snd (video_format env ip)),
           height = snd (snd (video_format env ip)),
           codec = ''mp4v'',
           frames = restored_prefix enhance (cap_remaining (VideoCapture env ip))\<rparr>"
proof -
  define cap where "cap = VideoCapture env ip"
  define w1 where "w1 = (emit (CapOpen ip) (emit (GfpganInit GFPGAN_CONFIG) w))\<lparr>open_caps := ip # open_caps w\<rparr>"
  define w2 where "w2 = VideoWriter env op ''mp4v'' (cap_get cap CAP_PROP_FPS)
     (py_int (cap_get cap CAP_PROP_FRAME_WIDTH), py_int (cap_get cap CAP_PROP_FRAME_HEIGHT)) w1"
  define v0 where "v0 = \<lparr>fps = fst (video_format env ip),
     width = fst (snd (video_format env ip)), height = snd (snd (video_format env ip)),
     codec = ''mp4v'', frames = []\<rparr>"
  have "encoded w2 op = Some v0"
    by (simp add: w2_def VideoWriter_def v0_def video_format_def cap_def)
  from frame_loop_encoded [OF this, of enhance cap 0]
  have loop: "encoded (snd (frame_loop enhance op cap 0 w2)) op =
     Some (v0\<lparr>frames := restored_prefix enhance (cap_remaining cap)\<rparr>)"
    by (simp add: v0_def)
  have "encoded (snd (restore_faces_video env ip op w)) = encoded (snd (frame_loop enhance op cap 0 w2))"
    by (simp add: restore_faces_video_def assms Let_def w1_def cap_def w2_def
        writer_release_def cap_release_def split: prod.splits sum.splits)
  then show ?thesis using loop by (simp add: v0_def cap_def)
qed

lemma restore_faces_video_returns:
  assumes "restore_faces_video env ip op w = (Inr p, w')"
  shows "\<exists>enhance. gfpganer env GFPGAN_CONFIG = Inr enhance \<and>
     map enhance (cap_remaining (VideoCapture env ip)) =
       map Inr (restored_prefix enhance (cap_remaining (VideoCapture env ip)))"
proof (cases "gfpganer env GFPGAN_CONFIG")
  case (Inl e)
  then show ?thesis using assms by (simp add: restore_faces_video_def)
next
  case (Inr enhance)
  define cap where "cap = VideoCapture env ip"
  define w1 where "w1 = (emit (CapOpen ip) (emit (GfpganInit GFPGAN_CONFIG) w))\<lparr>open_caps := ip # open_caps w\<rparr>"
  define w2 where "w2 = VideoWriter env op ''mp4v'' (cap_get cap CAP_PROP_FPS)
     (py_int (cap_get cap CAP_PROP_FRAME_WIDTH), py_int (cap_get cap CAP_PROP_FRAME_HEIGHT)) w1"
  obtain r w3 where loop: "frame_loop enhance op cap 0 w2 = (r, w3)"
    by (cases "frame_loop enhance op cap 0 w2")
  have "\<exists>k. r = Inr k"
    using assms loop
    by (cases r) (simp_all add: restore_faces_video_def Inr Let_def w1_def cap_def w2_def)
  then obtain k where "frame_loop enhance op cap 0 w2 = (Inr k, w3)"
    using loop by auto
  from frame_loop_returns [OF this] show ?thesis
    using Inr by (simp add: cap_def)
qed

lemma restore_faces_video_trace:
  assumes "restore_faces_video env ip op w = (Inr p, w')"
  shows "trace w' = trace w @ [GfpganInit GFPGAN_CONFIG, CapOpen ip, WriterOpen op]
           @ concat (map (\<lambda>f. [Enhance f, FrameWrite op]) (cap_remaining (VideoCapture env ip)))
           @ [CapRelease ip, WriterRelease op]"
proof (cases "gfpganer env GFPGAN_CONFIG")
  case (Inl e)
  then show ?thesis using assms by (simp add: restore_faces_video_def)
next
  case (Inr enhance)
  define cap where "cap = VideoCapture env ip"
  define w1 where "w1 = (emit (CapOpen ip) (emit (GfpganInit GFPGAN_CONFIG) w))\<lparr>open_caps := ip # open_caps w\<rparr>"
  define w2 where "w2 = VideoWriter env op ''mp4v'' (cap_get cap CAP_PROP_FPS)
     (py_int (cap_get cap CAP_PROP_FRAME_WIDTH), py_int (cap_get cap CAP_PROP_FRAME_HEIGHT)) w1"
  obtain r w3 where loop: "frame_loop enhance op cap 0 w2 = (r, w3)"
    by (cases "frame_loop enhance op cap 0 w2")
  have t2: "trace w2 = trace w @ [GfpganInit GFPGAN_CONFIG, CapOpen ip, WriterOpen op]"
    by (simp add: w2_def w1_def VideoWriter_def)
  show ?thesis
  proof (cases r)
    case (Inl e)
    then show ?thesis using assms loop
      by (simp add: restore_faces_video_def Inr Let_def w1_def cap_def w2_def)
  next
    case r: (Inr k)
    have w': "w' = writer_release op (cap_release ip w3)"
      using assms loop r
      by (auto simp: restore_faces_video_def Inr Let_def w1_def cap_def w2_def)
    have "trace w3 = trace w2 @ concat (map (\<lambda>f. [Enhance f, FrameWrite op]) (cap_remaining cap))"
      using frame_loop_trace [of enhance op cap 0 w2 k w3] loop r by simp
    then show ?thesis
      by (simp add: w' t2 writer_release_def cap_release_def cap_def)
  qed
qed

text \<open>
  Claim C4 says that the output of the Face Restore stage has exactly the frame width, the
  frame height and the frame rate of its input, for every input video. The stage asks the
  encoder for these values, and the video has what the encoder makes of them: for a clip of
  63 by 47 and an encoder that writes even sizes only, the output is 62 by 46.
\<close>

theorem face_restore_odd_size_is_not_kept:
  "probe env_even_sizes ''up.mp4'' = Some clip_odd
   \<and> width clip_odd = 63 \<and> height clip_odd = 47
   \<and> map_option width
        (encoded (snd (restore_faces_video env_even_sizes ''up.mp4'' ''out.mp4'' world0)) ''out.mp4'')
       = Some 62
   \<and> map_option height
        (encoded (snd (restore_faces_video env_even_sizes ''up.mp4'' ''out.mp4'' world0)) ''out.mp4'')
       = Some 46"
proof -
  have g: "gfpganer env_even_sizes GFPGAN_CONFIG = Inr brighten"
    by (simp add: env_even_sizes_def env_ok_def)
  have f: "video_format env_even_sizes ''up.mp4'' = (30, 62, 46)"
    by (simp add: video_format_def env_even_sizes_def env_ok_def VideoCapture_def clip_odd_def
        clip_def py_int_def)
  show ?thesis
    using restore_faces_video_encoded [OF g, of "''up.mp4''" "''out.mp4''" world0]
    by (simp add: f) (simp add: env_even_sizes_def env_ok_def clip_odd_def clip_def)
qed

text \<open>
  Claim C4, amended. For every input video, the Face Restore stage opens its encoder with
  the frame rate, the frame width and the frame height read from its input, unchanged (the
  width and height go through \<^verbatim>\<open>int\<close>, which leaves a whole number as it is). The output
  video has the rate and size that the encoder makes of this request, on every path through
  the frame loop; they are those of the input whenever the encoder keeps the rate and size
  it is asked for.
\<close>

theorem face_restore_requests_input_format:
  assumes "probe env input_path = Some v"
      and "gfpganer env GFPGAN_CONFIG = Inr enhance"
  shows "\<exists>v'. encoded (snd (restore_faces_video env input_path output_path w)) output_path = Some v'
           \<and> (fps v', width v', height v') =
               writer_format env ''mp4v'' (fps v) (width v, height v)
           \<and> (writer_format env ''mp4v'' (fps v) (width v, height v) =
                 (fps v, width v, height v) \<longrightarrow>
               fps v' = fps v \<and> width v' = width v \<and> height v' = height v)"
proof -
  have "video_format env input_path = writer_format env ''mp4v'' (fps v) (width v, height v)"
    using assms(1) by (simp add: video_format_def VideoCapture_def py_int_of_int)
  then show ?thesis
    using restore_faces_video_encoded [OF assms(2), of input_path output_path w]
    by auto
qed

theorem face_restore_requests_input_format_witness:
  "probe env_ok ''up.mp4'' = Some clip \<and> gfpganer env_ok GFPGAN_CONFIG = Inr brighten \<and>
   writer_format env_ok ''mp4v'' (fps clip) (width clip, height clip) =
     (fps clip, width clip, height clip) \<and>
   (\<exists>v'. encoded (snd (restore_faces_video env_ok ''up.mp4'' ''out.mp4'' world0)) ''out.mp4'' = Some v'
      \<and> fps v' = fps clip \<and> width v' = width clip \<and> height v' = height clip)"
proof -
  have a: "probe env_ok ''up.mp4'' = Some clip" by (simp add: env_ok_def)
  have b: "gfpganer env_ok GFPGAN_CONFIG = Inr brighten" by (simp add: env_ok_def)
  have c: "writer_format env_ok ''mp4v'' (fps clip) (width clip, height clip) =
     (fps clip, width clip, height clip)"
    by (simp add: env_ok_def)
  show ?thesis
    using a b c face_restore_requests_input_format [OF a b, of "''out.mp4''" world0] by auto
qed

text \<open>
  Claim C5. For every input video, when the Face Restore stage returns, its output holds
  as many frames as were decoded from its input, and the frame at each position is the
  restored image of the input frame at that position. The operations of the stage are, for
  each decoded frame in turn, one inference call followed at once by one write: no frame
  is dropped, duplicated or held back.
\<close>

theorem face_restore_frame_count:
  assumes "probe env input_path = Some v"
      and "restore_faces_video env input_path output_path w = (Inr p, w')"
  shows "\<exists>v' enhance. gfpganer env GFPGAN_CONFIG = Inr enhance
           \<and> encoded w' output_path = Some v'
           \<and> length (frames v') = length (frames v)
           \<and> map enhance (frames v) = map Inr (frames v')
           \<and> new_events w w' =
               [GfpganInit GFPGAN_CONFIG, CapOpen input_path, WriterOpen output_path]
               @ concat (map (\<lambda>f. [Enhance f, FrameWrite output_path]) (frames v))
               @ [CapRelease input_path, WriterRelease output_path]"
proof -
  from restore_faces_video_returns [OF assms(2)] obtain enhance where
    e: "gfpganer env GFPGAN_CONFIG = Inr enhance" and
    m: "map enhance (cap_remaining (VideoCapture env input_path)) =
       map Inr (restored_prefix enhance (cap_remaining (VideoCapture env input_path)))"
    by blast
  have rem: "cap_remaining (VideoCapture env input_path) = frames v"
    using assms(1) by (simp add: VideoCapture_def)
  have enc: "encoded w' output_path = Some \<lparr>fps = fst (video_format env input_path),
           width = fst (snd (video_format env input_path)),
           height = snd (snd (video_format env input_path)),
           codec = ''mp4v'',
           frames = restored_prefix enhance (frames v)\<rparr>"
    using restore_faces_video_encoded [OF e, of input_path output_path w] assms(2) rem by simp
  have len: "length (restored_prefix enhance (frames v)) = length (frames v)"
    using m rem by (metis length_map)
  have tr: "new_events w w' =
               [GfpganInit GFPGAN_CONFIG, CapOpen input_path, WriterOpen output_path]
               @ concat (map (\<lambda>f. [Enhance f, FrameWrite output_path]) (frames v))
               @ [CapRelease input_path, WriterRelease output_path]"
    using restore_faces_video_trace [OF assms(2)] rem by (simp add: new_events_def)
  show ?thesis using e enc len m rem tr by simp
qed

theorem face_restore_frame_count_witness:
  "probe env_ok ''up.mp4'' = Some clip \<and>
   fst (restore_faces_video env_ok ''up.mp4'' ''out.mp4'' world0) = Inr ''out.mp4'' \<and>
   (\<exists>v' enhance. gfpganer env_ok GFPGAN_CONFIG = Inr enhance
       \<and> encoded (snd (restore_faces_video env_ok ''up.mp4'' ''out.mp4'' world0)) ''out.mp4'' = Some v'
       \<and> length (frames v') = length (frames clip)
       \<and> map enhance (frames clip) = map Inr (frames v')
       \<and> new_events world0 (snd (restore_faces_video env_ok ''up.mp4'' ''out.mp4'' world0)) =
           [GfpganInit GFPGAN_CONFIG, CapOpen ''up.mp4'', WriterOpen ''out.mp4'']
           @ concat (map (\<lambda>f. [Enhance f, FrameWrite ''out.mp4'']) (frames clip))
           @ [CapRelease ''up.mp4'', WriterRelease ''out.mp4''])"
proof -
  have a: "probe env_ok ''up.mp4'' = Some clip" by (simp add: env_ok_def)
  have b: "fst (restore_faces_video env_ok ''up.mp4'' ''out.mp4'' world0) = Inr ''out.mp4''"
    by code_simp
  show ?thesis using a b face_restore_frame_count [OF a pair_fstI [OF b]] by simp
qed

text \<open>
  Claim C3 says that the decoder and the encoder are released on every path, also when the
  inference call raises partway through the loop. The two \<^verbatim>\<open>release\<close> calls of lines 59
  and 60 stand after the loop and under no \<^verbatim>\<open>try\<close>/\<^verbatim>\<open>finally\<close>: on a clip of two frames
  whose second frame makes the inference call raise, the stage raises with both handles
  still open, and no release operation was invoked.
\<close>

theorem restore_faces_video_leaks_on_inference_error:
  "fst (restore_faces_video env_inference_fails ''up.mp4'' ''out.mp4'' world0) =
     Inl (Exception ''CUDA out of memory'') \<and>
   open_caps (snd (restore_faces_video env_inference_fails ''up.mp4'' ''out.mp4'' world0)) = [''up.mp4''] \<and>
   open_outs (snd (restore_faces_video env_inference_fails ''up.mp4'' ''out.mp4'' world0)) = [''out.mp4''] \<and>
   trace (snd (restore_faces_video env_inference_fails ''up.mp4'' ''out.mp4'' world0)) =
     [GfpganInit GFPGAN_CONFIG, CapOpen ''up.mp4'', WriterOpen ''out.mp4'',
      Enhance (Frame [1, 2]), FrameWrite ''out.mp4'', Enhance (Frame [3, 4])]"
  by code_simp

text \<open>
  The same for every run in which the restorer was constructed: when the stage returns,
  both handles have been released; when the frame loop raises, both are still open.
\<close>

lemma restore_faces_video_handles:
  assumes "gfpganer env GFPGAN_CONFIG = Inr enhance"
      and "restore_faces_video env ip op w = (r, w')"
  shows "(case r of
            Inr p \<Rightarrow> open_caps w' = open_caps w \<and> open_outs w' = open_outs w
          | Inl e \<Rightarrow> open_caps w' = ip # open_caps w \<and> open_outs w' = op # open_outs w)"
proof -
  define cap where "cap = VideoCapture env ip"
  define w1 where "w1 = (emit (CapOpen ip) (emit (GfpganInit GFPGAN_CONFIG) w))\<lparr>open_caps := ip # open_caps w\<rparr>"
  define w2 where "w2 = VideoWriter env op ''mp4v'' (cap_get cap CAP_PROP_FPS)
     (py_int (cap_get cap CAP_PROP_FRAME_WIDTH), py_int (cap_get cap CAP_PROP_FRAME_HEIGHT)) w1"
  obtain r3 w3 where loop: "frame_loop enhance op cap 0 w2 = (r3, w3)"
    by (cases "frame_loop enhance op cap 0 w2")
  have h2: "open_caps w2 = ip # open_caps w" "open_outs w2 = op # open_outs w"
    by (simp_all add: w2_def w1_def VideoWriter_def)
  have h3: "open_caps w3 = ip # open_caps w" "open_outs w3 = op # open_outs w"
    using frame_loop_handles [of enhance op cap 0 w2] loop h2 by simp_all
  show ?thesis
    using assms(2) loop h3
    by (cases r3)
       (auto simp: restore_faces_video_def assms(1) Let_def w1_def cap_def w2_def
          writer_release_def cap_release_def)
qed

section \<open>The handler as a whole\<close>

lemma then_do_staged:
  assumes "\<And>w. staged w (snd (m w))" and "\<And>x w. staged w (snd (f x w))"
  shows "staged w (snd (then_do m f w))"
proof (cases "m w")
  case (Pair r w1)
  have s1: "staged w w1" using assms(1) [of w] Pair by simp
  show ?thesis
  proof (cases r)
    case (Inl e)
    then show ?thesis using Pair s1 by (simp add: then_do_def)
  next
    case (Inr x)
    then show ?thesis using Pair staged_trans [OF s1 assms(2) [of w1 x]]
      by (simp add: then_do_def)
  qed
qed

lemma pipeline_staged:
  "staged w (snd (pipeline env url scl model face audio upload_url d w))"
proof (cases url)
  case (PStr u)
  show ?thesis
    unfolding pipeline_def PStr pyval.simps
    by (intro then_do_staged download_file_footprint [THEN footprint_staged]
        run_realesrgan_footprint [THEN footprint_staged]
        face_restore_step_footprint [THEN footprint_staged]
        audio_enhance_step_footprint [THEN footprint_staged]
        upload_result_footprint [THEN footprint_staged])
       (simp add: py_return_def staged_refl)
qed (simp_all add: pipeline_def py_raise_def staged_refl)

lemma handler_not_entered:
  "\<not> truthy (dict_get (input job) ''video_url'' PNone) \<Longrightarrow>
   handler env job w = (Inr (Error ''video_url required''), w)"
  by (simp add: handler_def Let_def py_return_def)

lemma handler_entered:
  assumes "truthy (dict_get (input job) ''video_url'' PNone)"
  shows "handler env job w =
     with_TemporaryDirectory env
       (pipeline env (dict_get (input job) ''video_url'' PNone)
          (dict_get (input job) ''scale'' (PInt 4))
          (dict_get (input job) ''model'' (PStr REALESRGAN_MODEL))
          (dict_get (input job) ''face_restore'' (PBool True))
          (dict_get (input job) ''audio_enhance'' (PBool True))
          (dict_get (input job) ''upload_url'' (PStr ''''))) w"
  using assms by (simp add: handler_def Let_def)

lemma with_TemporaryDirectory_shape:
  assumes "\<And>d w. staged w (snd (body d w))"
  shows "snd (with_TemporaryDirectory env body w) = w \<or>
     (\<exists>d es. mkdtemp env = Inr d \<and>
        trace (snd (with_TemporaryDirectory env body w)) = trace w @ Mkdtemp d # es @ [Rmtree d] \<and>
        list_all (\<lambda>ev. event_stage ev \<noteq> None) es \<and>
        live_dirs (snd (with_TemporaryDirectory env body w)) = removeAll d (live_dirs w))"
proof (cases "mkdtemp env")
  case (Inl e)
  then show ?thesis by (simp add: with_TemporaryDirectory_def)
next
  case (Inr d)
  obtain r w1 where b: "body d (enter_tmpdir d w) = (r, w1)"
    by (cases "body d (enter_tmpdir d w)")
  have "staged (enter_tmpdir d w) w1"
    using assms [of "enter_tmpdir d w" d] b by simp
  then obtain es where es: "trace w1 = trace (enter_tmpdir d w) @ es"
      "list_all (\<lambda>ev. event_stage ev \<noteq> None) es" "live_dirs w1 = live_dirs (enter_tmpdir d w)"
    by (auto simp: staged_def)
  have "snd (with_TemporaryDirectory env body w) = cleanup_tmpdir d w1"
    by (simp add: with_TemporaryDirectory_def Inr b)
  then show ?thesis
    using es Inr by (simp add: cleanup_tmpdir_def enter_tmpdir_def)
qed

lemma handler_shape:
  "snd (handler env job w) = w \<or>
     (\<exists>d es. mkdtemp env = Inr d \<and>
        trace (snd (handler env job w)) = trace w @ Mkdtemp d # es @ [Rmtree d] \<and>
        list_all (\<lambda>ev. event_stage ev \<noteq> None) es \<and>
        live_dirs (snd (handler env job w)) = removeAll d (live_dirs w))"
proof (cases "truthy (dict_get (input job) ''video_url'' PNone)")
  case False
  then show ?thesis by (simp add: handler_not_entered)
next
  case True
  show ?thesis
    unfolding handler_entered [OF True]
    by (rule with_TemporaryDirectory_shape) (rule pipeline_staged)
qed

text \<open>
  Claim C6. Whatever way the handler ends (a result, an error result, or an exception of
  any stage), no temporary directory is left that was not there before, and a workspace
  that was created during the run has been removed: it is not among the live directories
  and its removal is the last operation of the run.
\<close>

theorem workspace_removed_on_every_exit:
  assumes "handler env job w = (r, w')"
  shows "set (live_dirs w') \<subseteq> set (live_dirs w) \<and>
         (\<forall>d. Mkdtemp d \<in> set (new_events w w') \<longrightarrow>
              d \<notin> set (live_dirs w') \<and> last (trace w') = Rmtree d)"
proof -
  have w': "w' = snd (handler env job w)" using assms by simp
  from handler_shape [of env job w] show ?thesis
  proof
    assume "snd (handler env job w) = w"
    then show ?thesis using w' by (simp add: new_events_def)
  next
    assume "\<exists>d es. mkdtemp env = Inr d \<and>
        trace (snd (handler env job w)) = trace w @ Mkdtemp d # es @ [Rmtree d] \<and>
        list_all (\<lambda>ev. event_stage ev \<noteq> None) es \<and>
        live_dirs (snd (handler env job w)) = removeAll d (live_dirs w)"
    then obtain d0 es where tr: "trace w' = trace w @ Mkdtemp d0 # es @ [Rmtree d0]"
        and es: "list_all (\<lambda>ev. event_stage ev \<noteq> None) es"
        and ld: "live_dirs w' = removeAll d0 (live_dirs w)"
      using w' by auto
    have ne: "new_events w w' = Mkdtemp d0 # es @ [Rmtree d0]"
      by (simp add: new_events_def tr)
    have only: "d = d0" if "Mkdtemp d \<in> set (new_events w w')" for d
    proof -
      from that ne have "Mkdtemp d = Mkdtemp d0 \<or> Mkdtemp d \<in> set es" by auto
      moreover have "Mkdtemp d \<notin> set es"
        using es by (force simp: list_all_iff)
      ultimately show ?thesis by simp
    qed
    show ?thesis using only ld tr by auto
  qed
qed

theorem workspace_removed_on_every_exit_witness:
  "handler env_upscale_fails job_default world0 =
     (Inl (RuntimeError ''Real-ESRGAN failed: invalid gpu device''),
      snd (handler env_upscale_fails job_default world0)) \<and>
   Mkdtemp ''/tmp/job'' \<in> set (new_events world0 (snd (handler env_upscale_fails job_default world0))) \<and>
   ''/tmp/job'' \<notin> set (live_dirs (snd (handler env_upscale_fails job_default world0))) \<and>
   last (trace (snd (handler env_upscale_fails job_default world0))) = Rmtree ''/tmp/job''"
proof -
  have f: "fst (handler env_upscale_fails job_default world0) =
      Inl (RuntimeError ''Real-ESRGAN failed: invalid gpu device'')"
    by code_simp
  then have h: "handler env_upscale_fails job_default world0 =
     (Inl (RuntimeError ''Real-ESRGAN failed: invalid gpu device''),
      snd (handler env_upscale_fails job_default world0))"
    by (metis prod.collapse)
  have m: "Mkdtemp ''/tmp/job'' \<in> set (new_events world0 (snd (handler env_upscale_fails job_default world0)))"
    by code_simp
  show ?thesis using h m workspace_removed_on_every_exit [OF h] by blast
qed

text \<open>
  Claim C8. A job whose input has no \<^verbatim>\<open>video_url\<close>, or an empty one, gets exactly
  \<^verbatim>\<open>{"error": "video_url required"}\<close>, and the state is unchanged: no operation of any
  stage was invoked and no workspace was created.
\<close>

theorem missing_video_url_rejected:
  assumes "input job ''video_url'' = None \<or> input job ''video_url'' = Some (PStr '''')"
  shows "handler env job w = (Inr (Error ''video_url required''), w)"
  using assms by (auto simp: handler_def Let_def py_return_def dict_get_def)

theorem missing_video_url_rejected_witness:
  "input job_no_url ''video_url'' = None \<and>
   handler env_ok job_no_url world0 = (Inr (Error ''video_url required''), world0)"
proof -
  have a: "input job_no_url ''video_url'' = None" by (simp add: job_no_url_def)
  then have b: "input job_no_url ''video_url'' = None \<or> input job_no_url ''video_url'' = Some (PStr '''')"
    by simp
  show ?thesis using a missing_video_url_rejected [OF b, of env_ok world0] by simp
qed

section \<open>Publishing\<close>

lemma py_split_nonempty: "py_split c s \<noteq> []"
  by (induction s) auto

lemma py_split_first: "py_split c s ! 0 = takeWhile (\<lambda>x. x \<noteq> c) s"
  by (induction s) (auto simp: hd_conv_nth py_split_nonempty)

text \<open>
  Claim C9. When a destination is supplied and the artifact is read and put to it without
  an error, the Publish stage returns the destination up to its first \<open>?\<close>, which is not
  part of the result: no query parameter is left. When no destination is supplied (the
  value is empty), it returns the descriptor \<^verbatim>\<open>file://<path> (<size> bytes)\<close> with the size
  of the artifact in decimal.
\<close>

theorem publish_result:
  "(u \<noteq> [] \<and> open_rb env file_path = None \<and> http_put env (PStr u) file_path = None \<longrightarrow>
      upload_result env file_path (PStr u) w =
        (Inr (takeWhile (\<lambda>c. c \<noteq> CHR ''?'') u),
         emit (HttpPut (PStr u) file_path 600) (emit (FileRead file_path) w))
      \<and> CHR ''?'' \<notin> set (takeWhile (\<lambda>c. c \<noteq> CHR ''?'') u))
   \<and> (\<not> truthy dest \<and> getsize env file_path = Inr n \<longrightarrow>
      upload_result env file_path dest w =
        (Inr (''file://'' @ file_path @ '' ('' @ str_nat n @ '' bytes)''),
         emit (Getsize file_path) w))"
proof -
  have "CHR ''?'' \<notin> set (takeWhile (\<lambda>c. c \<noteq> CHR ''?'') u)"
    by (auto dest: set_takeWhileD)
  then show ?thesis
    by (simp add: upload_result_def py_split_first)
qed

theorem publish_result_witness:
  "upload_result env_ok ''/tmp/job/upscaled.mp4'' (PStr ''https://bucket/out.mp4?X-Sig=abc'') world0 =
     (Inr ''https://bucket/out.mp4'',
      emit (HttpPut (PStr ''https://bucket/out.mp4?X-Sig=abc'') ''/tmp/job/upscaled.mp4'' 600)
        (emit (FileRead ''/tmp/job/upscaled.mp4'') world0))
   \<and> upload_result env_ok ''/tmp/job/upscaled.mp4'' (PStr '''') world0 =
     (Inr ''file:///tmp/job/upscaled.mp4 (2048 bytes)'',
      emit (Getsize ''/tmp/job/upscaled.mp4'') world0)"
proof -
  have n: "str_nat 2048 = ''2048''" by code_simp
  show ?thesis
    using publish_result [of "''https://bucket/out.mp4?X-Sig=abc''" env_ok
        "''/tmp/job/upscaled.mp4''" world0 "PStr ''''" 2048]
    by (simp add: env_ok_def n)
qed

section \<open>Runs of the pipeline\<close>

lemma stage_events_enter [simp]: "stage_events s (enter_tmpdir d w) = stage_events s w"
  by (simp add: stage_events_def enter_tmpdir_def)

lemma stage_events_cleanup [simp]: "stage_events s (cleanup_tmpdir d w) = stage_events s w"
  by (simp add: stage_events_def cleanup_tmpdir_def)

lemma after_download:
  "download_file env url dest w = (r, w1) \<Longrightarrow> s \<noteq> Fetch \<Longrightarrow> stage_events s w1 = stage_events s w"
  using download_file_footprint [of w env url dest] by (auto dest: footprint_other_stage)

lemma after_upscale:
  "run_realesrgan env ip op scl model w = (r, w1) \<Longrightarrow> s \<noteq> Upscale \<Longrightarrow>
   stage_events s w1 = stage_events s w"
  using run_realesrgan_footprint [of w env ip op scl model] by (auto dest: footprint_other_stage)

lemma after_restore:
  "restore_faces_video env ip op w = (r, w1) \<Longrightarrow> s \<noteq> FaceRestore \<Longrightarrow>
   stage_events s w1 = stage_events s w"
  using restore_faces_video_footprint [of w env ip op] by (auto dest: footprint_other_stage)

lemma after_face_step:
  "face_restore_step env d face cur w = (r, w1) \<Longrightarrow> s \<noteq> FaceRestore \<Longrightarrow>
   stage_events s w1 = stage_events s w"
  using face_restore_step_footprint [of w env d face cur] by (auto dest: footprint_other_stage)

lemma after_audio_step:
  "audio_enhance_step env d audio cur w = (r, w1) \<Longrightarrow> s \<noteq> AudioEnhance \<Longrightarrow>
   stage_events s w1 = stage_events s w"
  using audio_enhance_step_footprint [of w env d audio cur] by (auto dest: footprint_other_stage)

lemma handler_run:
  assumes "dict_get (input job) ''video_url'' PNone = PStr u" and "u \<noteq> []"
      and "mkdtemp env = Inr d"
  shows "handler env job w =
     (case pipeline env (PStr u)
          (dict_get (input job) ''scale'' (PInt 4))
          (dict_get (input job) ''model'' (PStr REALESRGAN_MODEL))
          (dict_get (input job) ''face_restore'' (PBool True))
          (dict_get (input job) ''audio_enhance'' (PBool True))
          (dict_get (input job) ''upload_url'' (PStr '''')) d (enter_tmpdir d w)
      of (r, w') \<Rightarrow> (r, cleanup_tmpdir d w'))"
  using assms by (simp add: handler_def Let_def with_TemporaryDirectory_def)

lemma pipeline_fetch_raises:
  "download_file env u (input_path_of env d u) w = (Inl e, w1) \<Longrightarrow>
   pipeline env (PStr u) scl model face audio dest d w = (Inl e, w1)"
  by (simp add: pipeline_def then_do_def)

lemma pipeline_upscale_raises:
  "download_file env u (input_path_of env d u) w = (Inr a, w1) \<Longrightarrow>
   run_realesrgan env (input_path_of env d u) (upscaled_path_of d) scl model w1 = (Inl e, w2) \<Longrightarrow>
   pipeline env (PStr u) scl model face audio dest d w = (Inl e, w2)"
  by (simp add: pipeline_def then_do_def)

lemma pipeline_face_raises:
  "download_file env u (input_path_of env d u) w = (Inr a, w1) \<Longrightarrow>
   run_realesrgan env (input_path_of env d u) (upscaled_path_of d) scl model w1 = (Inr b, w2) \<Longrightarrow>
   face_restore_step env d face (upscaled_path_of d) w2 = (Inl e, w3) \<Longrightarrow>
   pipeline env (PStr u) scl model face audio dest d w = (Inl e, w3)"
  by (simp add: pipeline_def then_do_def)

lemma pipeline_audio_raises:
  "download_file env u (input_path_of env d u) w = (Inr a, w1) \<Longrightarrow>
   run_realesrgan env (input_path_of env d u) (upscaled_path_of d) scl model w1 = (Inr b, w2) \<Longrightarrow>
   face_restore_step env d face (upscaled_path_of d) w2 = (Inr c, w3) \<Longrightarrow>
   audio_enhance_step env d audio c w3 = (Inl e, w4) \<Longrightarrow>
   pipeline env (PStr u) scl model face audio dest d w = (Inl e, w4)"
  by (simp add: pipeline_def then_do_def)

lemma pipeline_publish:
  "download_file env u (input_path_of env d u) w = (Inr a, w1) \<Longrightarrow>
   run_realesrgan env (input_path_of env d u) (upscaled_path_of d) scl model w1 = (Inr b, w2) \<Longrightarrow>
   face_restore_step env d face (upscaled_path_of d) w2 = (Inr c, w3) \<Longrightarrow>
   audio_enhance_step env d audio c w3 = (Inr c', w4) \<Longrightarrow>
   pipeline env (PStr u) scl model face audio dest d w =
     (case upload_result env c' dest w4 of
        (Inl e, w5) \<Rightarrow> (Inl e, w5)
      | (Inr result_url, w5) \<Rightarrow>
          (Inr (Done \<lparr>video_url = result_url, duration_secs = elapsed env,
             scale = scl, face_restore = face, audio_enhance = audio\<rparr>), w5))"
  by (simp add: pipeline_def then_do_def py_return_def split: prod.splits sum.splits)

lemma face_step_raises:
  "truthy face \<Longrightarrow> restore_faces_video env cur (restored_path_of d) w = (Inl e, w1) \<Longrightarrow>
   face_restore_step env d face cur w = (Inl e, w1)"
  by (simp add: face_restore_step_def then_do_def)

section \<open>Fatal errors\<close>

text \<open>
  Claim C1 says that, when a fatal stage raises, the handler returns a job result with an
  error field. The handler has no \<^verbatim>\<open>try\<close>: for a job whose upscale process exits with
  code 1 it returns nothing, the \<^verbatim>\<open>RuntimeError\<close> of \<^verbatim>\<open>run_realesrgan\<close> leaves it.
\<close>

theorem upscale_failure_is_raised_not_returned:
  "fst (handler env_upscale_fails job_default world0) =
     Inl (RuntimeError ''Real-ESRGAN failed: invalid gpu device'')"
  by code_simp

text \<open>
  Claim C1, amended. When a fatal stage (fetch, upscale, face restore, publish) raises, the
  handler raises the same exception, unchanged, once the workspace is removed; it returns no
  result. No operation of a later stage has been invoked: the operations of those stages
  are the ones that were there before the run.
\<close>

theorem fatal_stage_error_propagates:
  assumes "dict_get (input job) ''video_url'' PNone = PStr u" and "u \<noteq> []"
      and "mkdtemp env = Inr d"
      and "scl = dict_get (input job) ''scale'' (PInt 4)"
      and "model = dict_get (input job) ''model'' (PStr REALESRGAN_MODEL)"
      and "face = dict_get (input job) ''face_restore'' (PBool True)"
      and "audio = dict_get (input job) ''audio_enhance'' (PBool True)"
      and "dest = dict_get (input job) ''upload_url'' (PStr '''')"
      and "ip = input_path_of env d u" and "up = upscaled_path_of d"
  shows
    "(download_file env u ip (enter_tmpdir d w) = (Inl e, w1) \<longrightarrow>
        handler env job w = (Inl e, cleanup_tmpdir d w1)
        \<and> stage_events Upscale (cleanup_tmpdir d w1) = stage_events Upscale w
        \<and> stage_events FaceRestore (cleanup_tmpdir d w1) = stage_events FaceRestore w
        \<and> stage_events AudioEnhance (cleanup_tmpdir d w1) = stage_events AudioEnhance w
        \<and> stage_events Publish (cleanup_tmpdir d w1) = stage_events Publish w)
     \<and> (download_file env u ip (enter_tmpdir d w) = (Inr a, w1)
        \<and> run_realesrgan env ip up scl model w1 = (Inl e, w2) \<longrightarrow>
        handler env job w = (Inl e, cleanup_tmpdir d w2)
        \<and> stage_events FaceRestore (cleanup_tmpdir d w2) = stage_events FaceRestore w
        \<and> stage_events AudioEnhance (cleanup_tmpdir d w2) = stage_events AudioEnhance w
        \<and> stage_events Publish (cleanup_tmpdir d w2) = stage_events Publish w)
     \<and> (download_file env u ip (enter_tmpdir d w) = (Inr a, w1)
        \<and> run_realesrgan env ip up scl model w1 = (Inr b, w2)
        \<and> truthy face
        \<and> restore_faces_video env up (restored_path_of d) w2 = (Inl e, w3) \<longrightarrow>
        handler env job w = (Inl e, cleanup_tmpdir d w3)
        \<and> stage_events AudioEnhance (cleanup_tmpdir d w3) = stage_events AudioEnhance w
        \<and> stage_events Publish (cleanup_tmpdir d w3) = stage_events Publish w)
     \<and> (download_file env u ip (enter_tmpdir d w) = (Inr a, w1)
        \<and> run_realesrgan env ip up scl model w1 = (Inr b, w2)
        \<and> face_restore_step env d face up w2 = (Inr c, w3)
        \<and> audio_enhance_step env d audio c w3 = (Inr c', w4)
        \<and> upload_result env c' dest w4 = (Inl e, w5) \<longrightarrow>
        handler env job w = (Inl e, cleanup_tmpdir d w5))"
proof -
  note run = handler_run [OF assms(1,2,3), of w, folded assms(4-8)]
  have fetch: "handler env job w = (Inl e, cleanup_tmpdir d w1)
        \<and> stage_events Upscale (cleanup_tmpdir d w1) = stage_events Upscale w
        \<and> stage_events FaceRestore (cleanup_tmpdir d w1) = stage_events FaceRestore w
        \<and> stage_events AudioEnhance (cleanup_tmpdir d w1) = stage_events AudioEnhance w
        \<and> stage_events Publish (cleanup_tmpdir d w1) = stage_events Publish w"
    if f: "download_file env u ip (enter_tmpdir d w) = (Inl e, w1)"
  proof -
    have "pipeline env (PStr u) scl model face audio dest d (enter_tmpdir d w) = (Inl e, w1)"
      using f by (simp add: assms(9) pipeline_fetch_raises)
    then have "handler env job w = (Inl e, cleanup_tmpdir d w1)"
      by (simp add: run)
    then show ?thesis
      using after_download [OF f] by simp
  qed
  have upscale: "handler env job w = (Inl e, cleanup_tmpdir d w2)
        \<and> stage_events FaceRestore (cleanup_tmpdir d w2) = stage_events FaceRestore w
        \<and> stage_events AudioEnhance (cleanup_tmpdir d w2) = stage_events AudioEnhance w
        \<and> stage_events Publish (cleanup_tmpdir d w2) = stage_events Publish w"
    if f: "download_file env u ip (enter_tmpdir d w) = (Inr a, w1)"
      and g: "run_realesrgan env ip up scl model w1 = (Inl e, w2)"
  proof -
    have "pipeline env (PStr u) scl model face audio dest d (enter_tmpdir d w) = (Inl e, w2)"
      using f g by (simp add: assms(9,10) pipeline_upscale_raises)
    then have "handler env job w = (Inl e, cleanup_tmpdir d w2)"
      by (simp add: run)
    then show ?thesis
      using after_download [OF f] after_upscale [OF g] by simp
  qed
  have restore: "handler env job w = (Inl e, cleanup_tmpdir d w3)
        \<and> stage_events AudioEnhance (cleanup_tmpdir d w3) = stage_events AudioEnhance w
        \<and> stage_events Publish (cleanup_tmpdir d w3) = stage_events Publish w"
    if f: "download_file env u ip (enter_tmpdir d w) = (Inr a, w1)"
      and g: "run_realesrgan env ip up scl model w1 = (Inr b, w2)"
      and t: "truthy face"
      and h: "restore_faces_video env up (restored_path_of d) w2 = (Inl e, w3)"
  proof -
    have "face_restore_step env d face up w2 = (Inl e, w3)"
      using t h by (rule face_step_raises)
    then have "pipeline env (PStr u) scl model face audio dest d (enter_tmpdir d w) = (Inl e, w3)"
      using f g by (simp add: assms(9,10) pipeline_face_raises)
    then have "handler env job w = (Inl e, cleanup_tmpdir d w3)"
      by (simp add: run)
    then show ?thesis
      using after_download [OF f] after_upscale [OF g] after_restore [OF h] by simp
  qed
  have publish: "handler env job w = (Inl e, cleanup_tmpdir d w5)"
    if f: "download_file env u ip (enter_tmpdir d w) = (Inr a, w1)"
      and g: "run_realesrgan env ip up scl model w1 = (Inr b, w2)"
      and h: "face_restore_step env d face up w2 = (Inr c, w3)"
      and i: "audio_enhance_step env d audio c w3 = (Inr c', w4)"
      and j: "upload_result env c' dest w4 = (Inl e, w5)"
  proof -
    have "pipeline env (PStr u) scl model face audio dest d (enter_tmpdir d w) = (Inl e, w5)"
      using pipeline_publish [of env u d "enter_tmpdir d w" a w1 scl model b w2 face c w3 audio c' w4 dest]
        f g h i j by (simp add: assms(9,10))
    then show ?thesis by (simp add: run)
  qed
  show ?thesis
    using fetch upscale restore publish by blast
qed

theorem fatal_stage_error_propagates_witness:
  "download_file env_upscale_fails ''https://x/test.mp4''
      (input_path_of env_upscale_fails ''/tmp/job'' ''https://x/test.mp4'')
      (enter_tmpdir ''/tmp/job'' world0) =
     (Inr ''/tmp/job/input.mp4'',
      snd (download_file env_upscale_fails ''https://x/test.mp4''
        (input_path_of env_upscale_fails ''/tmp/job'' ''https://x/test.mp4'')
        (enter_tmpdir ''/tmp/job'' world0)))
   \<and> fst (run_realesrgan env_upscale_fails
        (input_path_of env_upscale_fails ''/tmp/job'' ''https://x/test.mp4'')
        (upscaled_path_of ''/tmp/job'') (PInt 4) (PStr REALESRGAN_MODEL)
        (snd (download_file env_upscale_fails ''https://x/test.mp4''
          (input_path_of env_upscale_fails ''/tmp/job'' ''https://x/test.mp4'')
          (enter_tmpdir ''/tmp/job'' world0)))) =
       Inl (RuntimeError ''Real-ESRGAN failed: invalid gpu device'')
   \<and> fst (handler env_upscale_fails job_default world0) =
       Inl (RuntimeError ''Real-ESRGAN failed: invalid gpu device'')
   \<and> stage_events FaceRestore (snd (handler env_upscale_fails job_default world0)) = []
   \<and> stage_events AudioEnhance (snd (handler env_upscale_fails job_default world0)) = []
   \<and> stage_events Publish (snd (handler env_upscale_fails job_default world0)) = []"
proof -
  let ?E = env_upscale_fails
  let ?u = "''https://x/test.mp4''"
  let ?d = "''/tmp/job''"
  let ?ip = "input_path_of ?E ?d ?u"
  let ?up = "upscaled_path_of ?d"
  let ?w1 = "snd (download_file ?E ?u ?ip (enter_tmpdir ?d world0))"
  let ?w2 = "snd (run_realesrgan ?E ?ip ?up (PInt 4) (PStr REALESRGAN_MODEL) ?w1)"
  let ?e = "RuntimeError ''Real-ESRGAN failed: invalid gpu device''"
  have p1: "dict_get (input job_default) ''video_url'' PNone = PStr ?u"
    by (simp add: job_default_def dict_get_def)
  have p2: "?u \<noteq> []" by simp
  have p3: "mkdtemp ?E = Inr ?d" by (simp add: env_upscale_fails_def env_ok_def)
  have p4: "PInt 4 = dict_get (input job_default) ''scale'' (PInt 4)"
    by (simp add: job_default_def dict_get_def)
  have p5: "PStr REALESRGAN_MODEL = dict_get (input job_default) ''model'' (PStr REALESRGAN_MODEL)"
    by (simp add: job_default_def dict_get_def)
  have f: "fst (download_file ?E ?u ?ip (enter_tmpdir ?d world0)) = Inr ''/tmp/job/input.mp4''"
    by code_simp
  have g: "fst (run_realesrgan ?E ?ip ?up (PInt 4) (PStr REALESRGAN_MODEL) ?w1) = Inl ?e"
    by code_simp
  note f' = pair_fstI [OF f] and g' = pair_fstI [OF g]
  have e0: "stage_events FaceRestore world0 = []" "stage_events AudioEnhance world0 = []"
    "stage_events Publish world0 = []"
    by (simp_all add: stage_events_def world0_def)
  from fatal_stage_error_propagates [OF p1 p2 p3 p4 p5 refl refl refl refl refl,
      of world0 ?e ?w1 "''/tmp/job/input.mp4''" ?w2]
  have "download_file ?E ?u ?ip (enter_tmpdir ?d world0) = (Inr ''/tmp/job/input.mp4'', ?w1)
        \<and> run_realesrgan ?E ?ip ?up (PInt 4) (PStr REALESRGAN_MODEL) ?w1 = (Inl ?e, ?w2) \<longrightarrow>
        handler ?E job_default world0 = (Inl ?e, cleanup_tmpdir ?d ?w2)
        \<and> stage_events FaceRestore (cleanup_tmpdir ?d ?w2) = stage_events FaceRestore world0
        \<and> stage_events AudioEnhance (cleanup_tmpdir ?d ?w2) = stage_events AudioEnhance world0
        \<and> stage_events Publish (cleanup_tmpdir ?d ?w2) = stage_events Publish world0"
    by blast
  with f' g' e0 show ?thesis using f g by simp
qed

section \<open>The audio stage\<close>

lemma enhance_audio_nonzero_exit:
  "exec env (audio_cmd inp outp) = Exits secs rc out err \<Longrightarrow> secs \<le> 3600 \<Longrightarrow> rc \<noteq> 0 \<Longrightarrow>
   enhance_audio env inp outp w = (Inr inp, emit (Exec (audio_cmd inp outp) 3600) w)"
  by (simp add: enhance_audio_def then_do_def subprocess_run_def py_return_def)

lemma enhance_audio_timeout:
  "exec env (audio_cmd inp outp) = Hangs \<or>
     (exec env (audio_cmd inp outp) = Exits secs rc out err \<and> 3600 < secs) \<Longrightarrow>
   enhance_audio env inp outp w =
     (Inl (TimeoutExpired (audio_cmd inp outp) 3600), emit (Exec (audio_cmd inp outp) 3600) w)"
  by (auto simp: enhance_audio_def then_do_def subprocess_run_def)

text \<open>
  Claim C2. When the audio filter process exits, within its time limit, with a non-zero
  code, \<^verbatim>\<open>enhance_audio\<close> returns its input path. The handler goes on to publish that
  artifact, the one from before the audio stage, and when publishing succeeds it returns
  the result record.
\<close>

theorem audio_soft_fail:
  assumes "dict_get (input job) ''video_url'' PNone = PStr u" and "u \<noteq> []"
      and "mkdtemp env = Inr d"
      and "scl = dict_get (input job) ''scale'' (PInt 4)"
      and "model = dict_get (input job) ''model'' (PStr REALESRGAN_MODEL)"
      and "face = dict_get (input job) ''face_restore'' (PBool True)"
      and "audio = dict_get (input job) ''audio_enhance'' (PBool True)"
      and "dest = dict_get (input job) ''upload_url'' (PStr '''')"
      and "ip = input_path_of env d u" and "up = upscaled_path_of d"
      and "download_file env u ip (enter_tmpdir d w) = (Inr a, w1)"
      and "run_realesrgan env ip up scl model w1 = (Inr b, w2)"
      and "face_restore_step env d face up w2 = (Inr current, w3)"
      and "truthy audio"
      and "exec env (audio_cmd current (audio_path_of d)) = Exits secs rc out err"
      and "secs \<le> 3600" and "rc \<noteq> 0"
      and "w4 = emit (Exec (audio_cmd current (audio_path_of d)) 3600) w3"
  shows "enhance_audio env current (audio_path_of d) w3 = (Inr current, w4)
     \<and> (upload_result env current dest w4 = (Inr url, w5) \<longrightarrow>
          handler env job w =
            (Inr (Done \<lparr>video_url = url, duration_secs = elapsed env, scale = scl,
               face_restore = face, audio_enhance = audio\<rparr>),
             cleanup_tmpdir d w5))"
proof -
  note run = handler_run [OF assms(1,2,3), of w, folded assms(4-8)]
  have ea: "enhance_audio env current (audio_path_of d) w3 = (Inr current, w4)"
    using enhance_audio_nonzero_exit [OF assms(15,16,17)] by (simp add: assms(18))
  then have step: "audio_enhance_step env d audio current w3 = (Inr current, w4)"
    using assms(14) by (simp add: audio_enhance_step_def)
  have "handler env job w =
            (Inr (Done \<lparr>video_url = url, duration_secs = elapsed env, scale = scl,
               face_restore = face, audio_enhance = audio\<rparr>),
             cleanup_tmpdir d w5)"
    if p: "upload_result env current dest w4 = (Inr url, w5)"
    using pipeline_publish [of env u d "enter_tmpdir d w" a w1 scl model b w2 face current w3
        audio current w4 dest] assms(11,12,13) step p
    by (simp add: run assms(9,10))
  then show ?thesis using ea by blast
qed

theorem audio_soft_fail_witness:
  "exec env_audio_fails (audio_cmd ''/tmp/job/restored.mp4'' (audio_path_of ''/tmp/job'')) =
     Exits 2 1 [] ''no audio stream''
   \<and> fst (handler env_audio_fails job_default world0) =
       Inr (Done \<lparr>video_url = ''file:///tmp/job/restored.mp4 (2048 bytes)'',
         duration_secs = elapsed env_audio_fails, scale = PInt 4,
         face_restore = PBool True, audio_enhance = PBool True\<rparr>)"
proof -
  let ?E = env_audio_fails
  let ?u = "''https://x/test.mp4''"
  let ?d = "''/tmp/job''"
  let ?ip = "input_path_of ?E ?d ?u"
  let ?up = "upscaled_path_of ?d"
  let ?cur = "''/tmp/job/restored.mp4''"
  let ?w1 = "snd (download_file ?E ?u ?ip (enter_tmpdir ?d world0))"
  let ?w2 = "snd (run_realesrgan ?E ?ip ?up (PInt 4) (PStr REALESRGAN_MODEL) ?w1)"
  let ?w3 = "snd (face_restore_step ?E ?d (PBool True) ?up ?w2)"
  let ?w4 = "emit (Exec (audio_cmd ?cur (audio_path_of ?d)) 3600) ?w3"
  let ?w5 = "snd (upload_result ?E ?cur (PStr '''') ?w4)"
  let ?url = "''file:///tmp/job/restored.mp4 (2048 bytes)''"
  have p1: "dict_get (input job_default) ''video_url'' PNone = PStr ?u"
    by (simp add: job_default_def dict_get_def)
  have p2: "?u \<noteq> []" by simp
  have p3: "mkdtemp ?E = Inr ?d" by (simp add: env_audio_fails_def env_ok_def)
  have p4: "PInt 4 = dict_get (input job_default) ''scale'' (PInt 4)"
    by (simp add: job_default_def dict_get_def)
  have p5: "PStr REALESRGAN_MODEL = dict_get (input job_default) ''model'' (PStr REALESRGAN_MODEL)"
    by (simp add: job_default_def dict_get_def)
  have p6: "PBool True = dict_get (input job_default) ''face_restore'' (PBool True)"
    by (simp add: job_default_def dict_get_def)
  have p7: "PBool True = dict_get (input job_default) ''audio_enhance'' (PBool True)"
    by (simp add: job_default_def dict_get_def)
  have p8: "PStr '''' = dict_get (input job_default) ''upload_url'' (PStr '''')"
    by (simp add: job_default_def dict_get_def)
  have f: "fst (download_file ?E ?u ?ip (enter_tmpdir ?d world0)) = Inr ''/tmp/job/input.mp4''"
    by code_simp
  have g: "fst (run_realesrgan ?E ?ip ?up (PInt 4) (PStr REALESRGAN_MODEL) ?w1) =
      Inr ''/tmp/job/upscaled.mp4''"
    by code_simp
  have h: "fst (face_restore_step ?E ?d (PBool True) ?up ?w2) = Inr ?cur"
    by code_simp
  have ex: "exec ?E (audio_cmd ?cur (audio_path_of ?d)) = Exits 2 1 [] ''no audio stream''"
    by (simp add: env_audio_fails_def env_ok_def audio_cmd_def)
  have t: "truthy (PBool True)" by simp
  have s1: "(2::nat) \<le> 3600" by simp
  have s2: "(1::int) \<noteq> 0" by simp
  have p: "fst (upload_result ?E ?cur (PStr '''') ?w4) = Inr ?url"
    by code_simp
  from audio_soft_fail [OF p1 p2 p3 p4 p5 p6 p7 p8 refl refl pair_fstI [OF f] pair_fstI [OF g]
      pair_fstI [OF h] t ex s1 s2 refl, of ?url ?w5] pair_fstI [OF p]
  have "handler ?E job_default world0 =
      (Inr (Done \<lparr>video_url = ?url, duration_secs = elapsed ?E, scale = PInt 4,
         face_restore = PBool True, audio_enhance = PBool True\<rparr>), cleanup_tmpdir ?d ?w5)"
    by blast
  then show ?thesis using ex by simp
qed

text \<open>
  Claim C10. When the audio filter process does not exit within 3600 seconds,
  \<^verbatim>\<open>subprocess.run\<close> raises \<^verbatim>\<open>TimeoutExpired\<close>, whatever the return code would have been;
  \<^verbatim>\<open>enhance_audio\<close> does not catch it and the handler raises it. Nothing is published.
\<close>

theorem audio_timeout_is_fatal:
  assumes "dict_get (input job) ''video_url'' PNone = PStr u" and "u \<noteq> []"
      and "mkdtemp env = Inr d"
      and "scl = dict_get (input job) ''scale'' (PInt 4)"
      and "model = dict_get (input job) ''model'' (PStr REALESRGAN_MODEL)"
      and "face = dict_get (input job) ''face_restore'' (PBool True)"
      and "audio = dict_get (input job) ''audio_enhance'' (PBool True)"
      and "dest = dict_get (input job) ''upload_url'' (PStr '''')"
      and "ip = input_path_of env d u" and "up = upscaled_path_of d"
      and "download_file env u ip (enter_tmpdir d w) = (Inr a, w1)"
      and "run_realesrgan env ip up scl model w1 = (Inr b, w2)"
      and "face_restore_step env d face up w2 = (Inr current, w3)"
      and "truthy audio"
      and "exec env (audio_cmd current (audio_path_of d)) = Hangs \<or>
           (exec env (audio_cmd current (audio_path_of d)) = Exits secs rc out err \<and> 3600 < secs)"
      and "w4 = emit (Exec (audio_cmd current (audio_path_of d)) 3600) w3"
  shows "enhance_audio env current (audio_path_of d) w3 =
           (Inl (TimeoutExpired (audio_cmd current (audio_path_of d)) 3600), w4)
     \<and> handler env job w =
           (Inl (TimeoutExpired (audio_cmd current (audio_path_of d)) 3600), cleanup_tmpdir d w4)
     \<and> stage_events Publish (cleanup_tmpdir d w4) = stage_events Publish w"
proof -
  note run = handler_run [OF assms(1,2,3), of w, folded assms(4-8)]
  have ea: "enhance_audio env current (audio_path_of d) w3 =
           (Inl (TimeoutExpired (audio_cmd current (audio_path_of d)) 3600), w4)"
    using enhance_audio_timeout [OF assms(15)] by (simp add: assms(16))
  then have step: "audio_enhance_step env d audio current w3 =
           (Inl (TimeoutExpired (audio_cmd current (audio_path_of d)) 3600), w4)"
    using assms(14) by (simp add: audio_enhance_step_def)
  have "pipeline env (PStr u) scl model face audio dest d (enter_tmpdir d w) =
           (Inl (TimeoutExpired (audio_cmd current (audio_path_of d)) 3600), w4)"
    using pipeline_audio_raises [of env u d "enter_tmpdir d w" a w1 scl model b w2 face current w3
        audio _ w4 dest] assms(11,12,13) step
    by (simp add: assms(9,10))
  then have h: "handler env job w =
           (Inl (TimeoutExpired (audio_cmd current (audio_path_of d)) 3600), cleanup_tmpdir d w4)"
    by (simp add: run)
  have "stage_events Publish w4 = stage_events Publish w"
    using after_download [OF assms(11)] after_upscale [OF assms(12)]
      after_face_step [OF assms(13)] after_audio_step [OF step] by simp
  then show ?thesis using ea h by simp
qed

theorem audio_timeout_is_fatal_witness:
  "exec env_audio_slow (audio_cmd ''/tmp/job/restored.mp4'' (audio_path_of ''/tmp/job'')) =
     Exits 4000 0 [] []
   \<and> fst (handler env_audio_slow job_default world0) =
       Inl (TimeoutExpired (audio_cmd ''/tmp/job/restored.mp4'' (audio_path_of ''/tmp/job'')) 3600)
   \<and> stage_events Publish (snd (handler env_audio_slow job_default world0)) = []"
proof -
  let ?E = env_audio_slow
  let ?u = "''https://x/test.mp4''"
  let ?d = "''/tmp/job''"
  let ?ip = "input_path_of ?E ?d ?u"
  let ?up = "upscaled_path_of ?d"
  let ?cur = "''/tmp/job/restored.mp4''"
  let ?w1 = "snd (download_file ?E ?u ?ip (enter_tmpdir ?d world0))"
  let ?w2 = "snd (run_realesrgan ?E ?ip ?up (PInt 4) (PStr REALESRGAN_MODEL) ?w1)"
  let ?w3 = "snd (face_restore_step ?E ?d (PBool True) ?up ?w2)"
  have p1: "dict_get (input job_default) ''video_url'' PNone = PStr ?u"
    by (simp add: job_default_def dict_get_def)
  have p2: "?u \<noteq> []" by simp
  have p3: "mkdtemp ?E = Inr ?d" by (simp add: env_audio_slow_def env_ok_def)
  have p4: "PInt 4 = dict_get (input job_default) ''scale'' (PInt 4)"
    by (simp add: job_default_def dict_get_def)
  have p5: "PStr REALESRGAN_MODEL = dict_get (input job_default) ''model'' (PStr REALESRGAN_MODEL)"
    by (simp add: job_default_def dict_get_def)
  have p6: "PBool True = dict_get (input job_default) ''face_restore'' (PBool True)"
    by (simp add: job_default_def dict_get_def)
  have p7: "PBool True = dict_get (input job_default) ''audio_enhance'' (PBool True)"
    by (simp add: job_default_def dict_get_def)
  have f: "fst (download_file ?E ?u ?ip (enter_tmpdir ?d world0)) = Inr ''/tmp/job/input.mp4''"
    by code_simp
  have g: "fst (run_realesrgan ?E ?ip ?up (PInt 4) (PStr REALESRGAN_MODEL) ?w1) =
      Inr ''/tmp/job/upscaled.mp4''"
    by code_simp
  have h: "fst (face_restore_step ?E ?d (PBool True) ?up ?w2) = Inr ?cur"
    by code_simp
  have ex: "exec ?E (audio_cmd ?cur (audio_path_of ?d)) = Exits 4000 0 [] []"
    by (simp add: env_audio_slow_def env_ok_def audio_cmd_def)
  then have ex': "exec ?E (audio_cmd ?cur (audio_path_of ?d)) = Hangs \<or>
      (exec ?E (audio_cmd ?cur (audio_path_of ?d)) = Exits 4000 0 [] [] \<and> (3600::nat) < 4000)"
    by simp
  have t: "truthy (PBool True)" by simp
  have e0: "stage_events Publish world0 = []"
    by (simp add: stage_events_def world0_def)
  from audio_timeout_is_fatal [OF p1 p2 p3 p4 p5 p6 p7 refl refl refl pair_fstI [OF f]
      pair_fstI [OF g] pair_fstI [OF h] t ex' refl]
  show ?thesis using ex e0 by simp
qed

section \<open>The scale parameter\<close>

lemma run_realesrgan_world:
  "snd (run_realesrgan env ip op scl (PStr m) w) = emit (Exec (realesrgan_cmd ip op m scl) 7200) w"
  using subprocess_run_world [of env "realesrgan_cmd ip op m scl" 7200 w]
  by (auto simp: run_realesrgan_def then_do_def py_raise_def py_return_def
      split: prod.splits sum.splits)

lemma staged_trace: "staged w w' \<Longrightarrow> \<exists>es. trace w' = trace w @ es"
  by (auto simp: staged_def)

lemma then_do_trace:
  assumes "\<And>x w. staged w (snd (f x w))"
  shows "\<exists>es. trace (snd (then_do m f w)) = trace (snd (m w)) @ es"
proof (cases "m w")
  case (Pair r w1)
  show ?thesis
  proof (cases r)
    case (Inl e)
    then show ?thesis using Pair by (simp add: then_do_def)
  next
    case (Inr x)
    then show ?thesis using Pair staged_trace [OF assms [of w1 x]]
      by (simp add: then_do_def)
  qed
qed

text \<open>
  Claim C7 says that a scale outside 2 and 4 is rejected. No line of the handler or of
  \<^verbatim>\<open>run_realesrgan\<close> looks at the value: a job with scale 3 runs the upscale executable
  with \<^verbatim>\<open>-s 3\<close> and completes.
\<close>

theorem scale_three_reaches_the_upscaler:
  "dict_get (input job_scale3) ''scale'' (PInt 4) = PInt 3
   \<and> Exec [''realesrgan-ncnn-vulkan'', ''-i'', ''/tmp/job/input.mp4'',
        ''-o'', ''/tmp/job/upscaled.mp4'', ''-n'', ''realesr-general-x4v3'',
        ''-s'', ''3'', ''-f'', ''mp4''] 7200
      \<in> set (trace (snd (handler env_ok job_scale3 world0)))
   \<and> fst (handler env_ok job_scale3 world0) =
       Inr (Done \<lparr>video_url = ''file:///tmp/job/upscaled.mp4 (2048 bytes)'',
         duration_secs = 12.5, scale = PInt 3,
         face_restore = PBool False, audio_enhance = PBool False\<rparr>)"
  by code_simp

text \<open>
  Claim C7, amended. The scale is not validated: whatever value the job gives (4 when it
  gives none), once the input is fetched and when the model name is a string, the upscale
  executable is invoked with the \<^verbatim>\<open>str\<close> rendering of that value as its \<^verbatim>\<open>-s\<close> argument.
\<close>

theorem scale_is_passed_unvalidated:
  assumes "dict_get (input job) ''video_url'' PNone = PStr u" and "u \<noteq> []"
      and "mkdtemp env = Inr d"
      and "scl = dict_get (input job) ''scale'' (PInt 4)"
      and "dict_get (input job) ''model'' (PStr REALESRGAN_MODEL) = PStr m"
      and "download_file env u (input_path_of env d u) (enter_tmpdir d w) = (Inr a, w1)"
  shows "Exec [''realesrgan-ncnn-vulkan'', ''-i'', input_path_of env d u,
           ''-o'', upscaled_path_of d, ''-n'', m, ''-s'', py_str scl, ''-f'', ''mp4''] 7200
         \<in> set (new_events w (snd (handler env job w)))"
proof -
  let ?cmd = "realesrgan_cmd (input_path_of env d u) (upscaled_path_of d) m scl"
  let ?face = "dict_get (input job) ''face_restore'' (PBool True)"
  let ?audio = "dict_get (input job) ''audio_enhance'' (PBool True)"
  let ?dest = "dict_get (input job) ''upload_url'' (PStr '''')"
  let ?P = "pipeline env (PStr u) scl (PStr m) ?face ?audio ?dest d (enter_tmpdir d w)"
  have run: "handler env job w = (case ?P of (r, w') \<Rightarrow> (r, cleanup_tmpdir d w'))"
    using handler_run [OF assms(1,2,3), of w] by (simp add: assms(4,5))
  have "\<exists>es. trace (snd ?P) =
      trace (snd (run_realesrgan env (input_path_of env d u) (upscaled_path_of d) scl (PStr m) w1)) @ es"
    unfolding pipeline_def pyval.simps
      then_do_Inr [of "download_file env u (input_path_of env d u)" "enter_tmpdir d w" a w1,
        OF assms(6)]
    by (rule then_do_trace)
       (intro then_do_staged face_restore_step_footprint [THEN footprint_staged]
          audio_enhance_step_footprint [THEN footprint_staged]
          upload_result_footprint [THEN footprint_staged],
        simp add: py_return_def staged_refl)
  then obtain es where es: "trace (snd ?P) = trace w1 @ Exec ?cmd 7200 # es"
    by (auto simp: run_realesrgan_world)
  obtain es1 where es1: "trace w1 = trace (enter_tmpdir d w) @ es1"
    using download_file_footprint [of "enter_tmpdir d w" env u "input_path_of env d u"] assms(6)
    by (auto simp: stage_footprint_def)
  have t1: "trace w1 = trace w @ Mkdtemp d # es1"
    using es1 by (simp add: enter_tmpdir_def)
  have "snd (handler env job w) = cleanup_tmpdir d (snd ?P)"
    by (simp add: run split: prod.splits)
  then have "trace (snd (handler env job w)) = trace (snd ?P) @ [Rmtree d]"
    by (simp add: cleanup_tmpdir_def)
  then have "trace (snd (handler env job w)) =
      trace w @ Mkdtemp d # es1 @ Exec ?cmd 7200 # es @ [Rmtree d]"
    unfolding es t1 by simp
  then have "Exec ?cmd 7200 \<in> set (new_events w (snd (handler env job w)))"
    by (simp add: new_events_def)
  then show ?thesis by (simp add: realesrgan_cmd_def)
qed

theorem scale_is_passed_unvalidated_witness:
  "py_str (PInt 3) = ''3''
   \<and> Exec [''realesrgan-ncnn-vulkan'', ''-i'', input_path_of env_ok ''/tmp/job'' ''https://x/test.mp4'',
        ''-o'', upscaled_path_of ''/tmp/job'', ''-n'', ''realesr-general-x4v3'',
        ''-s'', ''3'', ''-f'', ''mp4''] 7200
      \<in> set (new_events world0 (snd (handler env_ok job_scale3 world0)))"
proof -
  let ?E = env_ok
  let ?u = "''https://x/test.mp4''"
  let ?d = "''/tmp/job''"
  have p1: "dict_get (input job_scale3) ''video_url'' PNone = PStr ?u"
    by (simp add: job_scale3_def dict_get_def)
  have p2: "?u \<noteq> []" by simp
  have p3: "mkdtemp ?E = Inr ?d" by (simp add: env_ok_def)
  have p4: "PInt 3 = dict_get (input job_scale3) ''scale'' (PInt 4)"
    by (simp add: job_scale3_def dict_get_def)
  have p5: "dict_get (input job_scale3) ''model'' (PStr REALESRGAN_MODEL) = PStr ''realesr-general-x4v3''"
    by (simp add: job_scale3_def dict_get_def REALESRGAN_MODEL_def)
  have f: "fst (download_file ?E ?u (input_path_of ?E ?d ?u) (enter_tmpdir ?d world0)) =
      Inr ''/tmp/job/input.mp4''"
    by code_simp
  have s: "py_str (PInt 3) = ''3''" by code_simp
  from scale_is_passed_unvalidated [OF p1 p2 p3 p4 p5 pair_fstI [OF f]]
  show ?thesis using s by simp
qed

end
